theory Spec2Isabelle
  imports Main "HOL-Library.Char_ord" "HOL-Library.List_Lexorder"
begin

section \<open>Values, objects and effects of the notebook code\<close>

text \<open>
  The repository is two Jupyter notebooks (the E. coli pentose-phosphate notebook,
  \<^verbatim>\<open>src/unnamed/part_000\<close>, and \<^verbatim>\<open>src/ModularEcoli.ipynb\<close>). Their code cells define five
  functions (\<^verbatim>\<open>ch\<close>, \<^verbatim>\<open>pathway\<close>, \<^verbatim>\<open>Pathway\<close>, \<^verbatim>\<open>Chemostats\<close>, \<^verbatim>\<open>printChem\<close>) and otherwise
  sequence calls into libraries that are not part of the sources (\<^verbatim>\<open>stoich\<close>,
  \<^verbatim>\<open>CobraExtract\<close>, \<^verbatim>\<open>stoichBondGraph\<close>, \<^verbatim>\<open>modularBondGraph\<close>, \<^verbatim>\<open>BondGraphTools\<close>,
  \<^verbatim>\<open>numpy\<close>, \<^verbatim>\<open>IPython\<close>).

  Python values that the notebook code handles are: \<^verbatim>\<open>None\<close>, booleans, integers,
  strings, lists (and tuples) of values, and references to objects created by the
  libraries. Names are strings of bytes; lists are kept as values (the notebook code
  never relies on two names sharing one list).
\<close>

datatype val = VNone | VBool bool | VInt int | VStr string | VList "val list" | VRef nat

text \<open>Exceptions: the ones the interpreter raises for the operations the notebooks
  perform themselves, and \<open>Raised\<close> for whatever a library raises.\<close>

datatype exn = KeyError val | IndexError | TypeError | ValueError | Raised string

text \<open>
  An object is a record of named entries, in insertion order (a Python \<^verbatim>\<open>dict\<close> with
  string keys, which is what the stoichiometric records are). The heap is the list of
  all objects; a reference is an index into it. Every live reference of a Python
  program is valid, so \<open>lookup\<close> returning \<open>None\<close> does not happen for references
  handed out by \<open>copy_copy\<close> or by a library that only ever extends the heap.
\<close>

type_synonym obj = "(string \<times> val) list"
type_synonym heap = "obj list"
type_synonym kwargs = "(string \<times> val) list"

text \<open>An external call as written at the call site: the dotted name, the positional
  arguments and the keyword arguments, in source order.\<close>

type_synonym call = "string \<times> val list \<times> kwargs"

text \<open>
  The external libraries are a parameter: any function that answers a call, at the
  current heap, with a value or an exception and a new heap.
\<close>

type_synonym library = "call \<Rightarrow> heap \<Rightarrow> (exn + val) \<times> heap"

text \<open>What the notebook code does that can be observed from outside: external calls
  (with their outcome), \<^verbatim>\<open>print\<close>, and the display of a cell's expression value.\<close>

datatype event = Call string "val list" kwargs "exn + val" | Print "val list" | Display val

text \<open>A computation takes the heap and gives a value or an exception, the new heap
  and the events it emitted, in order.\<close>

type_synonym 'a M = "heap \<Rightarrow> (exn + 'a) \<times> heap \<times> event list"

definition ret :: "'a \<Rightarrow> 'a M" where
  "ret x h = (Inr x, h, [])"

text \<open>Sequencing: an exception ends the computation (the notebooks have no
  \<^verbatim>\<open>try\<close>/\<^verbatim>\<open>except\<close>, so there is no operation that catches one).\<close>

definition bindM :: "'a M \<Rightarrow> ('a \<Rightarrow> 'b M) \<Rightarrow> 'b M" where
  "bindM m f h =
     (case m h of
        (Inl e, h1, es1) \<Rightarrow> (Inl e, h1, es1)
      | (Inr x, h1, es1) \<Rightarrow> (case f x h1 of (r, h2, es2) \<Rightarrow> (r, h2, es1 @ es2)))"

definition extcall :: "library \<Rightarrow> string \<Rightarrow> val list \<Rightarrow> kwargs \<Rightarrow> val M" where
  "extcall E name args kw h =
     (case E (name, args, kw) h of (r, h') \<Rightarrow> (r, h', [Call name args kw r]))"

text \<open>A method call \<^verbatim>\<open>recv.name(args)\<close> passes the receiver as the first argument.\<close>

definition call_method :: "library \<Rightarrow> val \<Rightarrow> string \<Rightarrow> val list \<Rightarrow> kwargs \<Rightarrow> val M" where
  "call_method E recv name args kw = extcall E (''.'' @ name) (recv # args) kw"

definition print :: "val list \<Rightarrow> unit M" where
  "print args h = (Inr (), h, [Print args])"

text \<open>IPython shows the value of an expression statement unless it is \<^verbatim>\<open>None\<close>.\<close>

definition display :: "val \<Rightarrow> unit M" where
  "display v h = (Inr (), h, if v = VNone then [] else [Display v])"

primrec foreach :: "'a list \<Rightarrow> ('a \<Rightarrow> unit M) \<Rightarrow> unit M" where
  "foreach [] f = ret ()"
| "foreach (x # xs) f = bindM (f x) (\<lambda>_. foreach xs f)"

definition result :: "(exn + 'a) \<times> heap \<times> event list \<Rightarrow> exn + 'a" where
  "result t = fst t"

definition heap_of :: "(exn + 'a) \<times> heap \<times> event list \<Rightarrow> heap" where
  "heap_of t = fst (snd t)"

definition trace :: "(exn + 'a) \<times> heap \<times> event list \<Rightarrow> event list" where
  "trace t = snd (snd t)"

subsection \<open>Operations on objects\<close>

definition lookup :: "heap \<Rightarrow> nat \<Rightarrow> obj option" where
  "lookup h a = (if a < length h then Some (h ! a) else None)"

primrec dict_set :: "string \<Rightarrow> val \<Rightarrow> obj \<Rightarrow> obj" where
  "dict_set k v [] = [(k, v)]"
| "dict_set k v (p # ps) = (if fst p = k then (k, v) # ps else p # dict_set k v ps)"

text \<open>\<^verbatim>\<open>x['key']\<close>: an entry of a record; \<^verbatim>\<open>KeyError\<close> when it has none; \<^verbatim>\<open>TypeError\<close> on a
  value that is not subscriptable or not by a string.\<close>

definition getitem :: "val \<Rightarrow> string \<Rightarrow> val M" where
  "getitem x k h =
     (case x of
        VRef a \<Rightarrow>
          (case lookup h a of
             None \<Rightarrow> (Inl TypeError, h, [])
           | Some d \<Rightarrow>
               (case map_of d k of
                  None \<Rightarrow> (Inl (KeyError (VStr k)), h, [])
                | Some v \<Rightarrow> (Inr v, h, [])))
      | _ \<Rightarrow> (Inl TypeError, h, []))"

text \<open>Python's position for an integer index into a sequence of \<open>n\<close> items: indices
  from \<open>-n\<close> to \<open>-1\<close> count from the end; outside \<open>-n .. n-1\<close> there is none.\<close>

definition position :: "nat \<Rightarrow> int \<Rightarrow> nat option" where
  "position n i =
     (if 0 \<le> i \<and> i < int n then Some (nat i)
      else if i < 0 \<and> - int n \<le> i then Some (nat (int n + i))
      else None)"

text \<open>\<^verbatim>\<open>x[i]\<close> for an integer literal \<open>i\<close>: an element of a list, a character of a
  string; a record has no integer keys.\<close>

definition getindex :: "val \<Rightarrow> int \<Rightarrow> val M" where
  "getindex x i h =
     (case x of
        VList xs \<Rightarrow>
          (case position (length xs) i of
             None \<Rightarrow> (Inl IndexError, h, [])
           | Some j \<Rightarrow> (Inr (xs ! j), h, []))
      | VStr s \<Rightarrow>
          (case position (length s) i of
             None \<Rightarrow> (Inl IndexError, h, [])
           | Some j \<Rightarrow> (Inr (VStr [s ! j]), h, []))
      | VRef a \<Rightarrow>
          (case lookup h a of
             None \<Rightarrow> (Inl TypeError, h, [])
           | Some d \<Rightarrow> (Inl (KeyError (VInt i)), h, []))
      | _ \<Rightarrow> (Inl TypeError, h, []))"

text \<open>\<^verbatim>\<open>x['key'] = v\<close> on a record: an existing entry keeps its place, a new one goes
  last. (The notebooks assign entries of records only.)\<close>

definition setitem :: "val \<Rightarrow> string \<Rightarrow> val \<Rightarrow> unit M" where
  "setitem x k v h =
     (case x of
        VRef a \<Rightarrow>
          (case lookup h a of
             None \<Rightarrow> (Inl TypeError, h, [])
           | Some d \<Rightarrow> (Inr (), h[a := dict_set k v d], []))
      | _ \<Rightarrow> (Inl TypeError, h, []))"

text \<open>
  \<^verbatim>\<open>copy.copy(x)\<close>, the standard library's shallow copy: for a record a new object with
  the same entries (the entries themselves are shared); a value without identity is
  returned as it is. The call is recorded among the events like any other call out
  of the notebook.
\<close>

definition shallow_copy :: "val \<Rightarrow> heap \<Rightarrow> (exn + val) \<times> heap" where
  "shallow_copy x h =
     (case x of
        VRef a \<Rightarrow>
          (case lookup h a of
             None \<Rightarrow> (Inl TypeError, h)
           | Some d \<Rightarrow> (Inr (VRef (length h)), h @ [d]))
      | _ \<Rightarrow> (Inr x, h))"

definition copy_copy :: "val \<Rightarrow> val M" where
  "copy_copy x h =
     (case shallow_copy x h of (r, h') \<Rightarrow> (r, h', [Call ''copy.copy'' [x] [] r]))"

definition raise :: "exn \<Rightarrow> 'a M" where
  "raise e h = (Inl e, h, [])"

text \<open>
  \<^verbatim>\<open>a, b = x\<close>: unpacking iterates \<open>x\<close>. A list or tuple gives its elements and a string
  its characters; iterating an object runs the object's own code, an external call
  that has to answer with the items. Anything but two items is a \<^verbatim>\<open>ValueError\<close>.
\<close>

definition two_items :: "val list \<Rightarrow> (val \<times> val) M" where
  "two_items xs = (case xs of [a, b] \<Rightarrow> ret (a, b) | _ \<Rightarrow> raise ValueError)"

definition unpack2 :: "library \<Rightarrow> val \<Rightarrow> (val \<times> val) M" where
  "unpack2 E x =
     (case x of
        VList xs \<Rightarrow> two_items xs
      | VStr s \<Rightarrow> two_items (map (\<lambda>c. VStr [c]) s)
      | VRef a \<Rightarrow>
          bindM (extcall E ''iter'' [x] []) (\<lambda>items.
          case items of VList xs \<Rightarrow> two_items xs | _ \<Rightarrow> raise TypeError)
      | _ \<Rightarrow> raise TypeError)"

definition strs :: "string list \<Rightarrow> val" where
  "strs xs = VList (map VStr xs)"

text \<open>A parameter with a default value: \<open>None\<close> when the call leaves it out.\<close>

definition dflt :: "'a \<Rightarrow> 'a option \<Rightarrow> 'a" where
  "dflt d x = (case x of None \<Rightarrow> d | Some v \<Rightarrow> v)"

section \<open>The functions the notebooks define\<close>

text \<open>\<^verbatim>\<open>def ch(name): return '\\ch{'+name+'}'\<close>\<close>

definition ch :: "string \<Rightarrow> string" where
  "ch name = CHR 0x5C # ''ch{'' @ name @ ''}''"

text \<open>
  \<^verbatim>\<open>
  def printChem(chem):
      Chem = ''
      for c in chem:
          Chem += f'\ch{{{c}}}, '
      return Chem[:-2]
  \<close>
  The slice \<^verbatim>\<open>Chem[:-2]\<close> keeps the first \<open>len - 2\<close> characters and is empty when there
  are fewer than two, which is what truncating subtraction on \<open>nat\<close> gives.
\<close>

definition printChem :: "string list \<Rightarrow> string" where
  "printChem chem =
     (let Chem = foldl (\<lambda>Chem c. Chem @ (CHR 0x5C # ''ch{'' @ c @ ''}, '')) [] chem
      in take (length Chem - 2) Chem)"

text \<open>
  \<^verbatim>\<open>
  def Chemostats(start='G6P',end=None):
      chemostats = ['ADP','ATP','CO2','H','H2O','NADP','NADPH']
      chemostats += [start]
      if end is not None:
          chemostats += end
      return chemostats
  \<close>
  \<open>start_arg\<close> is \<open>None\<close> when the call gives no \<^verbatim>\<open>start\<close>; \<open>end_arg\<close> is Python's
  \<^verbatim>\<open>None\<close> or a list of names.
\<close>

definition Chemostats :: "string option \<Rightarrow> string list option \<Rightarrow> string list" where
  "Chemostats start_arg end_arg =
     (let start = dflt ''G6P'' start_arg;
          chemostats = [''ADP'', ''ATP'', ''CO2'', ''H'', ''H2O'', ''NADP'', ''NADPH''];
          chemostats = chemostats @ [start];
          chemostats = (case end_arg of None \<Rightarrow> chemostats | Some e \<Rightarrow> chemostats @ e)
      in chemostats)"

text \<open>
  \<^verbatim>\<open>Chemostats\<close> as Python runs it on arguments of any kind: the function checks
  nothing. \<^verbatim>\<open>chemostats += [start]\<close> appends whatever \<^verbatim>\<open>start\<close> is;
  \<^verbatim>\<open>chemostats += end\<close> iterates \<^verbatim>\<open>end\<close>: a list or tuple gives its elements, a string
  its characters, an object runs its own code (an external call that has to answer
  with the items), and a number or a boolean is a \<^verbatim>\<open>TypeError\<close>. An argument that the
  call leaves out is \<open>None\<close>.
\<close>

definition iterate :: "library \<Rightarrow> val \<Rightarrow> val list M" where
  "iterate E x =
     (case x of
        VList xs \<Rightarrow> ret xs
      | VStr s \<Rightarrow> ret (map (\<lambda>c. VStr [c]) s)
      | VRef a \<Rightarrow>
          bindM (extcall E ''iter'' [x] []) (\<lambda>items.
          case items of VList xs \<Rightarrow> ret xs | _ \<Rightarrow> raise TypeError)
      | _ \<Rightarrow> raise TypeError)"

definition Chemostats_untyped :: "library \<Rightarrow> val option \<Rightarrow> val option \<Rightarrow> val M" where
  "Chemostats_untyped E start_arg end_arg =
     (let start = dflt (VStr ''G6P'') start_arg;
          stop = dflt VNone end_arg;
          chemostats = map VStr [''ADP'', ''ATP'', ''CO2'', ''H'', ''H2O'', ''NADP'', ''NADPH''];
          chemostats = chemostats @ [start]
      in
      if stop \<noteq> VNone
      then bindM (iterate E stop) (\<lambda>items. ret (VList (chemostats @ items)))
      else ret (VList chemostats))"

text \<open>The notebook's global \<^verbatim>\<open>showMu = True\<close>, read by \<^verbatim>\<open>pathway\<close>.\<close>

definition showMu :: bool where
  "showMu = True"

text \<open>
  \<^verbatim>\<open>
  def Pathway(S,chemostats,flowstats=[],verbose=False):
      print('Chemostats:',sorted(chemostats))
      print('Flowstats:', sorted(flowstats))
      s = copy.copy(S)
      sc = st.statify(s,chemostats=chemostats,flowstats=flowstats)
      sp = st.path(s,sc)
      if verbose:
          for stat in sorted(chemostats):
              print(ch(stat)+',')
      print(st.sprintrl(sp,chemformula=True))
      return s,sc,sp
  \<close>
\<close>

definition Pathway ::
  "library \<Rightarrow> val \<Rightarrow> string list \<Rightarrow> string list option \<Rightarrow> bool option \<Rightarrow> (val \<times> val \<times> val) M" where
  "Pathway E S chemostats flowstats_arg verbose_arg =
     (let flowstats = dflt [] flowstats_arg; verbose = dflt False verbose_arg in
      bindM (print [VStr ''Chemostats:'', strs (sort chemostats)]) (\<lambda>_.
      bindM (print [VStr ''Flowstats:'', strs (sort flowstats)]) (\<lambda>_.
      bindM (copy_copy S) (\<lambda>s.
      bindM (extcall E ''st.statify'' [s]
               [(''chemostats'', strs chemostats), (''flowstats'', strs flowstats)]) (\<lambda>sc.
      bindM (extcall E ''st.path'' [s, sc] []) (\<lambda>sp.
      bindM (if verbose
             then foreach (sort chemostats) (\<lambda>stat. print [VStr (ch stat @ '','')])
             else ret ()) (\<lambda>_.
      bindM (extcall E ''st.sprintrl'' [sp] [(''chemformula'', VBool True)]) (\<lambda>r.
      bindM (print [r]) (\<lambda>_.
      ret (s, sc, sp))))))))))"

text \<open>
  \<^verbatim>\<open>
  def pathway(bg,phi,chemostats,flowstats=[],computePhi=False,verbose=False):
      print('Chemostats:',sorted(chemostats))
      print('Flowstats:', sorted(flowstats))
      s = st.stoich(bg,quiet=True)
      sc = st.statify(s,chemostats=chemostats,flowstats=flowstats)
      sp = st.path(s,sc)
      if verbose:
          for stat in sorted(chemostats):
              print(ch(stat)+',')
      if computePhi:
          Phi,Phip = energetics(s,sp,phi)
          units = '~\si{\volt}'
          print(st.sprintp(sc))
          disp.Latex(st.sprintrl(sp,chemformula=True,Phi=Phip,showMu=showMu))
          return s,sc,sp,Phip
      else:
          print(st.sprintrl(sp,chemformula=True))
          Phip = 0
          return s,sc,sp,Phip
  \<close>
  \<^verbatim>\<open>energetics\<close> is a global name that no cell of the notebook binds: the call goes to
  whatever the environment provides, like a library call. The local \<^verbatim>\<open>units\<close> is never
  read. Inside a function the value of \<^verbatim>\<open>disp.Latex(...)\<close> is dropped, not displayed.
\<close>

definition pathway ::
  "library \<Rightarrow> val \<Rightarrow> val \<Rightarrow> string list \<Rightarrow> string list option \<Rightarrow> bool option \<Rightarrow> bool option
     \<Rightarrow> (val \<times> val \<times> val \<times> val) M" where
  "pathway E bg phi chemostats flowstats_arg computePhi_arg verbose_arg =
     (let flowstats = dflt [] flowstats_arg;
          computePhi = dflt False computePhi_arg;
          verbose = dflt False verbose_arg in
      bindM (print [VStr ''Chemostats:'', strs (sort chemostats)]) (\<lambda>_.
      bindM (print [VStr ''Flowstats:'', strs (sort flowstats)]) (\<lambda>_.
      bindM (extcall E ''st.stoich'' [bg] [(''quiet'', VBool True)]) (\<lambda>s.
      bindM (extcall E ''st.statify'' [s]
               [(''chemostats'', strs chemostats), (''flowstats'', strs flowstats)]) (\<lambda>sc.
      bindM (extcall E ''st.path'' [s, sc] []) (\<lambda>sp.
      bindM (if verbose
             then foreach (sort chemostats) (\<lambda>stat. print [VStr (ch stat @ '','')])
             else ret ()) (\<lambda>_.
      if computePhi then
        bindM (extcall E ''energetics'' [s, sp, phi] []) (\<lambda>t.
        bindM (unpack2 E t) (\<lambda>(Phi, Phip).
        bindM (extcall E ''st.sprintp'' [sc] []) (\<lambda>r.
        bindM (print [r]) (\<lambda>_.
        bindM (extcall E ''st.sprintrl'' [sp]
                 [(''chemformula'', VBool True), (''Phi'', Phip), (''showMu'', VBool showMu)]) (\<lambda>r.
        bindM (extcall E ''disp.Latex'' [r] []) (\<lambda>_.
        ret (s, sc, sp, Phip)))))))
      else
        bindM (extcall E ''st.sprintrl'' [sp] [(''chemformula'', VBool True)]) (\<lambda>r.
        bindM (print [r]) (\<lambda>_.
        ret (s, sc, sp, VInt 0))))))))))"

section \<open>The pentose-phosphate notebook (\<^verbatim>\<open>src/unnamed/part_000\<close>)\<close>

text \<open>
  Each code cell is a computation named after its execution count (\<^verbatim>\<open>In [n]\<close>); it
  takes the notebook's global names it reads and returns the ones it binds. An
  \<^verbatim>\<open>import\<close> statement asks the environment for the module. Library functions are
  called under the dotted name the source uses. The notebook's first cell sets
  \<^verbatim>\<open>InteractiveShell.ast_node_interactivity = "all"\<close>, so from the second cell on the
  value of every top-level expression statement is displayed.
\<close>

definition import_module :: "library \<Rightarrow> string \<Rightarrow> val M" where
  "import_module E name = extcall E ''import'' [VStr name] []"

text \<open>Both notebooks set the global \<^verbatim>\<open>quiet = True\<close>.\<close>

definition quiet :: bool where
  "quiet = True"

definition PPP_In1 :: "library \<Rightarrow> val M" where
  "PPP_In1 E =
     bindM (import_module E ''numpy'') (\<lambda>np.
     bindM (import_module E ''scipy'') (\<lambda>scipy.
     bindM (import_module E ''BondGraphTools'') (\<lambda>bgt.
     bindM (import_module E ''stoich'') (\<lambda>st.
     bindM (import_module E ''CobraExtract'') (\<lambda>Extract.
     bindM (import_module E ''stoichBondGraph'') (\<lambda>stbg.
     bindM (import_module E ''phiData'') (\<lambda>phiData.
     bindM (import_module E ''scipy.constants'') (\<lambda>con.
     bindM (extcall E ''getattr'' [con, VStr ''physical_constants''] []) (\<lambda>constants.
     bindM (getitem constants ''Faraday constant'') (\<lambda>entry.
     bindM (getindex entry 0) (\<lambda>F.
     bindM (import_module E ''IPython.display'') (\<lambda>disp.
     bindM (import_module E ''copy'') (\<lambda>copy.
     bindM (import_module E ''IPython.core.interactiveshell'') (\<lambda>shell.
     bindM (extcall E ''getattr'' [shell, VStr ''InteractiveShell''] []) (\<lambda>InteractiveShell.
     bindM (extcall E ''setattr''
              [InteractiveShell, VStr ''ast_node_interactivity'', VStr ''all''] []) (\<lambda>_.
     bindM (import_module E ''importlib'') (\<lambda>imp.
     ret st)))))))))))))))))"

definition PPP_In2 :: "library \<Rightarrow> val M" where
  "PPP_In2 E =
     bindM (extcall E ''Extract.extract'' []
              [(''cobraname'', VStr ''textbook''),
               (''Remove'', strs [''_C'', ''__'']),
               (''negReaction'', strs [''RPI'', ''PGK'', ''PGM'', ''SUCOAS'']),
               (''quiet'', VBool quiet)]) (\<lambda>sm.
     bindM (getitem sm ''reaction'') (\<lambda>v.
     bindM (print [v]) (\<lambda>_.
     ret sm)))"

definition PPP_In3 :: "library \<Rightarrow> val \<Rightarrow> (string list \<times> val) M" where
  "PPP_In3 E sm =
     (let name = ''GlyPPP_abg'';
          reaction = [];
          reaction = reaction @ [''PGI'', ''PFK'', ''FBA'', ''TPI''];
          reaction = reaction @ [''G6PDH2R'', ''PGL'', ''GND'', ''RPI'', ''TKT2'', ''TALA'', ''TKT1'', ''RPE'']
      in
      bindM (extcall E ''Extract.choose'' [sm] [(''reaction'', strs reaction)]) (\<lambda>sGlyPPP.
      bindM (setitem sGlyPPP ''name'' (VStr name)) (\<lambda>_.
      bindM (extcall E ''stbg.model'' [sGlyPPP] []) (\<lambda>v.
      bindM (display v) (\<lambda>_.
      ret (reaction, sGlyPPP))))))"

definition PPP_In4 :: "library \<Rightarrow> val M" where
  "PPP_In4 E =
     bindM (import_module E ''GlyPPP_abg'') (\<lambda>GlyPPP_abg.
     bindM (extcall E ''GlyPPP_abg.model'' [] []) (\<lambda>bg.
     extcall E ''st.stoich'' [bg] [(''quiet'', VBool quiet)]))"

definition PPP_In5 :: "library \<Rightarrow> val \<Rightarrow> unit M" where
  "PPP_In5 E sGlyPPP =
     bindM (extcall E ''st.sprintrl'' [sGlyPPP] [(''chemformula'', VBool True)]) (\<lambda>r.
     bindM (extcall E ''disp.Latex'' [r] []) display)"

text \<open>
  \<^verbatim>\<open>
  imp.reload(st)
  print('R5P and NADPH generation')
  chemostats = Chemostats(start='G6P',end=['R5P'])
  flowstats = ['PGI','TKT2']
  s,sc,sp = Pathway(S,chemostats,flowstats=flowstats)
  disp.Latex(st.sprintrl(sp,chemformula=True))
  \<close>
\<close>

definition PPP_In8 :: "library \<Rightarrow> val \<Rightarrow> val \<Rightarrow> unit M" where
  "PPP_In8 E st S =
     bindM (extcall E ''imp.reload'' [st] []) (\<lambda>v.
     bindM (display v) (\<lambda>_.
     bindM (print [VStr ''R5P and NADPH generation'']) (\<lambda>_.
     (let chemostats = Chemostats (Some ''G6P'') (Some [''R5P'']);
          flowstats = [''PGI'', ''TKT2'']
      in
      bindM (Pathway E S chemostats (Some flowstats) None) (\<lambda>(s, sc, sp).
      bindM (extcall E ''st.sprintrl'' [sp] [(''chemformula'', VBool True)]) (\<lambda>r.
      bindM (extcall E ''disp.Latex'' [r] []) display))))))"

definition PPP_In9 :: "library \<Rightarrow> val \<Rightarrow> unit M" where
  "PPP_In9 E S =
     bindM (print [VStr ''R5P generation'']) (\<lambda>_.
     (let chemostats = Chemostats (Some ''G6P'') (Some [''R5P'']);
          flowstats = [''G6PDH2R'']
      in
      bindM (Pathway E S chemostats (Some flowstats) None) (\<lambda>(s, sc, sp).
      bindM (extcall E ''st.sprintrl'' [sp] [(''chemformula'', VBool True)]) (\<lambda>r.
      bindM (extcall E ''disp.Latex'' [r] []) display))))"

definition PPP_In10 :: "library \<Rightarrow> val \<Rightarrow> unit M" where
  "PPP_In10 E S =
     bindM (print [VStr ''NADPH generation'']) (\<lambda>_.
     (let chemostats = Chemostats (Some ''G6P'') None;
          flowstats = []
      in
      bindM (Pathway E S chemostats (Some flowstats) None) (\<lambda>(s, sc, sp).
      bindM (extcall E ''st.sprintrl'' [sp] [(''chemformula'', VBool True)]) (\<lambda>r.
      bindM (extcall E ''disp.Latex'' [r] []) display))))"

text \<open>The notebook run from top to bottom. (Cells 6 and 7 only define the functions
  above.)\<close>

definition EcoliPPP :: "library \<Rightarrow> unit M" where
  "EcoliPPP E =
     bindM (PPP_In1 E) (\<lambda>st.
     bindM (PPP_In2 E) (\<lambda>sm.
     bindM (PPP_In3 E sm) (\<lambda>(reaction, sGlyPPP).
     bindM (PPP_In4 E) (\<lambda>S.
     bindM (PPP_In5 E sGlyPPP) (\<lambda>_.
     bindM (PPP_In8 E st S) (\<lambda>_.
     bindM (PPP_In9 E S) (\<lambda>_.
     PPP_In10 E S)))))))"

section \<open>The modular notebook (\<^verbatim>\<open>src/ModularEcoli.ipynb\<close>)\<close>

text \<open>
  This notebook leaves IPython's default: only the value of a cell's last statement,
  when that is an expression, is displayed. \<^verbatim>\<open>a - b\<close> on library objects is a call of
  the objects' own subtraction. \<^verbatim>\<open>xs.extend(ys)\<close> on a list the cell has just built
  is written \<open>xs @ ys\<close>.
\<close>

definition ME_In1 :: "library \<Rightarrow> unit M" where
  "ME_In1 E =
     bindM (import_module E ''BondGraphTools'') (\<lambda>bgt.
     bindM (import_module E ''numpy'') (\<lambda>np.
     bindM (import_module E ''IPython.display'') (\<lambda>disp.
     bindM (import_module E ''stoich'') (\<lambda>st.
     bindM (import_module E ''stoichBondGraph'') (\<lambda>stbg.
     bindM (import_module E ''modularBondGraph'') (\<lambda>mbg.
     bindM (import_module E ''CobraExtract'') (\<lambda>Extract.
     ret ())))))))"

definition ME_In3 :: "library \<Rightarrow> val M" where
  "ME_In3 E =
     extcall E ''Extract.extract'' []
       [(''Remove'', strs [''_C'', ''__'']),
        (''negReaction'', strs [''RPI'', ''PGK'', ''PGM'', ''SUCOAS'', ''FRD7'']),
        (''quiet'', VBool quiet)]"

definition ME_In4 :: "library \<Rightarrow> val \<Rightarrow> val M" where
  "ME_In4 E sm =
     (let reaction = [''GLCPTS'', ''PGI'', ''PFK'', ''FBP'', ''FBA'', ''TPI'', ''GAPD'', ''PGK'',
                      ''PGM'', ''ENO'', ''PYK'']
      in
      bindM (extcall E ''Extract.choose'' [sm] [(''reaction'', strs reaction)]) (\<lambda>s0.
      bindM (print [VStr ''Reactions:'', strs reaction]) (\<lambda>_.
      bindM (extcall E ''st.sprintrl'' [s0] [(''chemformula'', VBool True)]) (\<lambda>r.
      bindM (extcall E ''disp.Latex'' [r] []) (\<lambda>v.
      bindM (display v) (\<lambda>_.
      ret s0))))))"

text \<open>
  The sanity check shared by the cells that turn a sub-network into a bond graph:
  \<^verbatim>\<open>err = np.linalg.norm(s['N']-s0['N']); print("Error:",err)\<close>.
\<close>

definition sanity_check :: "library \<Rightarrow> val \<Rightarrow> val \<Rightarrow> unit M" where
  "sanity_check E s s0 =
     bindM (getitem s ''N'') (\<lambda>a.
     bindM (getitem s0 ''N'') (\<lambda>b.
     bindM (extcall E ''operator.sub'' [a, b] []) (\<lambda>d.
     bindM (extcall E ''np.linalg.norm'' [d] []) (\<lambda>err.
     print [VStr ''Error:'', err]))))"

text \<open>
  \<^verbatim>\<open>
  s0['name'] = 'GLY_abg'
  stbg.model(s0)
  import GLY_abg
  s = st.stoich(GLY_abg.model(),quiet=True)
  err = np.linalg.norm(s['N']-s0['N'])
  print("Error:",err)
  \<close>
\<close>

definition ME_In5 :: "library \<Rightarrow> val \<Rightarrow> val M" where
  "ME_In5 E s0 =
     bindM (setitem s0 ''name'' (VStr ''GLY_abg'')) (\<lambda>_.
     bindM (extcall E ''stbg.model'' [s0] []) (\<lambda>_.
     bindM (import_module E ''GLY_abg'') (\<lambda>GLY_abg.
     bindM (extcall E ''GLY_abg.model'' [] []) (\<lambda>bg.
     bindM (extcall E ''st.stoich'' [bg] [(''quiet'', VBool True)]) (\<lambda>s.
     bindM (sanity_check E s s0) (\<lambda>_.
     ret s))))))"

text \<open>
  \<^verbatim>\<open>
  chemostats0 = ['ADP','ATP','H2O','PI','H']
  sc0 = st.statify(s,chemostats=chemostats0)
  chemostats = ['GLCD_E','PYR','NAD','NADH']
  chemostats.extend(chemostats0)
  sc = st.statify(s,chemostats=chemostats)
  print(st.sprintp(sc))
  sp = st.path(s,sc)
  disp.Latex(st.sprintrl(sp,chemformula=True))
  \<close>
\<close>

definition ME_In6 :: "library \<Rightarrow> val \<Rightarrow> unit M" where
  "ME_In6 E s =
     (let chemostats0 = [''ADP'', ''ATP'', ''H2O'', ''PI'', ''H''] in
      bindM (extcall E ''st.statify'' [s] [(''chemostats'', strs chemostats0)]) (\<lambda>sc0.
      (let chemostats = [''GLCD_E'', ''PYR'', ''NAD'', ''NADH''];
           chemostats = chemostats @ chemostats0
       in
       bindM (extcall E ''st.statify'' [s] [(''chemostats'', strs chemostats)]) (\<lambda>sc.
       bindM (extcall E ''st.sprintp'' [sc] []) (\<lambda>r.
       bindM (print [r]) (\<lambda>_.
       bindM (extcall E ''st.path'' [s, sc] []) (\<lambda>sp.
       bindM (extcall E ''st.sprintrl'' [sp] [(''chemformula'', VBool True)]) (\<lambda>r.
       bindM (extcall E ''disp.Latex'' [r] []) display))))))))"

definition ME_In7 :: "library \<Rightarrow> val \<Rightarrow> (string list \<times> val) M" where
  "ME_In7 E sm =
     (let reaction = [''CS'', ''ACONTA'', ''ACONTB'', ''ICDHYR'', ''AKGDH'', ''SUCOAS'',
                      ''FRD7'', ''SUCDI'', ''FUM'', ''MDH'', ''NADTRHD'']
      in
      bindM (extcall E ''Extract.choose'' [sm] [(''reaction'', strs reaction)]) (\<lambda>s0.
      bindM (extcall E ''st.sprintrl'' [s0] [(''chemformula'', VBool True)]) (\<lambda>r.
      bindM (extcall E ''disp.Latex'' [r] []) (\<lambda>v.
      bindM (display v) (\<lambda>_.
      ret (reaction, s0))))))"

definition ME_In8 :: "library \<Rightarrow> val \<Rightarrow> val M" where
  "ME_In8 E s0 =
     bindM (setitem s0 ''name'' (VStr ''TCA_abg'')) (\<lambda>_.
     bindM (extcall E ''stbg.model'' [s0] []) (\<lambda>_.
     bindM (import_module E ''TCA_abg'') (\<lambda>TCA_abg.
     bindM (extcall E ''TCA_abg.model'' [] []) (\<lambda>bg.
     bindM (extcall E ''st.stoich'' [bg] [(''quiet'', VBool True)]) (\<lambda>s.
     bindM (sanity_check E s s0) (\<lambda>_.
     ret s))))))"

text \<open>
  \<^verbatim>\<open>
  print('No chemostats')
  print(st.sprintp(s))
  chemostats0 = ['ADP', 'ATP', 'H2O', 'NAD', 'NADH', 'PI','H','Q8','Q8H2']
  sc0 = st.statify(s,chemostats=chemostats0)
  print('Basic chemostats',chemostats0)
  print(st.sprintp(sc0))
  chemostats = ['ACCOA','COA','CO2']
  chemostats.extend(chemostats0)
  sc = st.statify(s,chemostats=chemostats)
  print('Chemostats',chemostats)
  print(st.sprintp(sc))
  \<close>
\<close>

definition ME_In9 :: "library \<Rightarrow> val \<Rightarrow> (val \<times> val) M" where
  "ME_In9 E s =
     bindM (print [VStr ''No chemostats'']) (\<lambda>_.
     bindM (extcall E ''st.sprintp'' [s] []) (\<lambda>r.
     bindM (print [r]) (\<lambda>_.
     (let chemostats0 = [''ADP'', ''ATP'', ''H2O'', ''NAD'', ''NADH'', ''PI'', ''H'', ''Q8'', ''Q8H2''] in
      bindM (extcall E ''st.statify'' [s] [(''chemostats'', strs chemostats0)]) (\<lambda>sc0.
      bindM (print [VStr ''Basic chemostats'', strs chemostats0]) (\<lambda>_.
      bindM (extcall E ''st.sprintp'' [sc0] []) (\<lambda>r.
      bindM (print [r]) (\<lambda>_.
      (let chemostats = [''ACCOA'', ''COA'', ''CO2''];
           chemostats = chemostats @ chemostats0
       in
       bindM (extcall E ''st.statify'' [s] [(''chemostats'', strs chemostats)]) (\<lambda>sc.
       bindM (print [VStr ''Chemostats'', strs chemostats]) (\<lambda>_.
       bindM (extcall E ''st.sprintp'' [sc] []) (\<lambda>r.
       bindM (print [r]) (\<lambda>_.
       ret (sc0, sc))))))))))))))"

definition ME_In10 :: "library \<Rightarrow> val \<Rightarrow> val \<Rightarrow> unit M" where
  "ME_In10 E s sc0 =
     bindM (extcall E ''st.path'' [s, sc0] []) (\<lambda>sp0.
     bindM (extcall E ''st.sprintrl'' [sp0] [(''chemformula'', VBool True), (''split'', VInt 10)]) (\<lambda>r.
     bindM (extcall E ''disp.Latex'' [r] []) display))"

definition ME_In11 :: "library \<Rightarrow> val \<Rightarrow> val \<Rightarrow> unit M" where
  "ME_In11 E s sc =
     bindM (extcall E ''st.path'' [s, sc] []) (\<lambda>sp.
     bindM (extcall E ''st.sprintrl'' [sp] [(''chemformula'', VBool True), (''split'', VInt 10)]) (\<lambda>r.
     bindM (extcall E ''disp.Latex'' [r] []) display))"

text \<open>\<^verbatim>\<open>reaction.extend(['PDH','PFL'])\<close> extends the list that cell 7 bound.\<close>

definition ME_In12 :: "library \<Rightarrow> val \<Rightarrow> string list \<Rightarrow> val M" where
  "ME_In12 E sm reaction0 =
     (let reaction = reaction0 @ [''PDH'', ''PFL''] in
      bindM (extcall E ''Extract.choose'' [sm] [(''reaction'', strs reaction)]) (\<lambda>s0.
      bindM (extcall E ''st.sprintrl'' [s0] [(''chemformula'', VBool True)]) (\<lambda>r.
      bindM (extcall E ''disp.Latex'' [r] []) (\<lambda>v.
      bindM (display v) (\<lambda>_.
      ret s0)))))"

definition ME_In13 :: "library \<Rightarrow> val \<Rightarrow> val M" where
  "ME_In13 E s0 =
     bindM (setitem s0 ''name'' (VStr ''PyrTCA_abg'')) (\<lambda>_.
     bindM (extcall E ''stbg.model'' [s0] []) (\<lambda>_.
     bindM (import_module E ''PyrTCA_abg'') (\<lambda>PyrTCA_abg.
     bindM (extcall E ''PyrTCA_abg.model'' [] []) (\<lambda>bg.
     bindM (extcall E ''st.stoich'' [bg] [(''quiet'', VBool True)]) (\<lambda>s.
     bindM (sanity_check E s s0) (\<lambda>_.
     ret s))))))"

text \<open>
  \<^verbatim>\<open>
  print('No chemostats')
  print(st.sprintp(s,removeSingle=True))
  chemostats0 = ['ADP', 'ATP', 'H2O', 'NAD', 'NADH', 'PI','NADP', 'NADPH','H','Q8','Q8H2','FOR']
  sc0 = st.statify(s,chemostats=chemostats0)
  print('Basic chemostats',chemostats0)
  print(st.sprintp(sc0,removeSingle=True))
  chemostats = ['PYR','CO2']
  chemostats.extend(chemostats0)
  sc = st.statify(s,chemostats=chemostats)
  print('Chemostats:', printChem(chemostats))
  print(st.sprintp(sc,removeSingle=True))
  \<close>
\<close>

definition ME_In15 :: "library \<Rightarrow> val \<Rightarrow> val M" where
  "ME_In15 E s =
     bindM (print [VStr ''No chemostats'']) (\<lambda>_.
     bindM (extcall E ''st.sprintp'' [s] [(''removeSingle'', VBool True)]) (\<lambda>r.
     bindM (print [r]) (\<lambda>_.
     (let chemostats0 = [''ADP'', ''ATP'', ''H2O'', ''NAD'', ''NADH'', ''PI'', ''NADP'', ''NADPH'',
                         ''H'', ''Q8'', ''Q8H2'', ''FOR'']
      in
      bindM (extcall E ''st.statify'' [s] [(''chemostats'', strs chemostats0)]) (\<lambda>sc0.
      bindM (print [VStr ''Basic chemostats'', strs chemostats0]) (\<lambda>_.
      bindM (extcall E ''st.sprintp'' [sc0] [(''removeSingle'', VBool True)]) (\<lambda>r.
      bindM (print [r]) (\<lambda>_.
      (let chemostats = [''PYR'', ''CO2''];
           chemostats = chemostats @ chemostats0
       in
       bindM (extcall E ''st.statify'' [s] [(''chemostats'', strs chemostats)]) (\<lambda>sc.
       bindM (print [VStr ''Chemostats:'', VStr (printChem chemostats)]) (\<lambda>_.
       bindM (extcall E ''st.sprintp'' [sc] [(''removeSingle'', VBool True)]) (\<lambda>r.
       bindM (print [r]) (\<lambda>_.
       ret sc)))))))))))))"

definition ME_In16 :: "library \<Rightarrow> val \<Rightarrow> val \<Rightarrow> unit M" where
  "ME_In16 E s sc =
     bindM (extcall E ''st.path'' [s, sc] []) (\<lambda>sp.
     bindM (extcall E ''st.sprintrl'' [sp] [(''chemformula'', VBool True), (''split'', VInt 10)]) (\<lambda>r.
     bindM (extcall E ''disp.Latex'' [r] []) display))"

definition ME_In17 :: "library \<Rightarrow> val \<Rightarrow> val M" where
  "ME_In17 E sm =
     (let reaction = [''NADH16'', ''CYTBD''] in
      bindM (extcall E ''Extract.choose'' [sm] [(''reaction'', strs reaction)]) (\<lambda>s0.
      bindM (extcall E ''st.sprintrl'' [s0] [(''chemformula'', VBool True)]) (\<lambda>r.
      bindM (extcall E ''disp.Latex'' [r] []) (\<lambda>v.
      bindM (display v) (\<lambda>_.
      ret s0)))))"

text \<open>
  \<^verbatim>\<open>
  s0['name'] = 'ETC_abg'
  stbg.model(s0)
  import ETC_abg
  s = st.stoich(ETC_abg.model(),quiet=True)
  err = np.linalg.norm(s['N']-s0['N'])
  print("Error:",err)
  s['reaction'] = s0['reaction']
  \<close>
\<close>

definition ME_In18 :: "library \<Rightarrow> val \<Rightarrow> val M" where
  "ME_In18 E s0 =
     bindM (setitem s0 ''name'' (VStr ''ETC_abg'')) (\<lambda>_.
     bindM (extcall E ''stbg.model'' [s0] []) (\<lambda>_.
     bindM (import_module E ''ETC_abg'') (\<lambda>ETC_abg.
     bindM (extcall E ''ETC_abg.model'' [] []) (\<lambda>bg.
     bindM (extcall E ''st.stoich'' [bg] [(''quiet'', VBool True)]) (\<lambda>s.
     bindM (sanity_check E s s0) (\<lambda>_.
     bindM (getitem s0 ''reaction'') (\<lambda>v.
     bindM (setitem s ''reaction'' v) (\<lambda>_.
     ret s))))))))"

definition ME_In19 :: "library \<Rightarrow> val \<Rightarrow> val M" where
  "ME_In19 E s =
     bindM (print [VStr ''No chemostats'']) (\<lambda>_.
     bindM (extcall E ''st.sprintp'' [s] []) (\<lambda>r.
     bindM (print [r]) (\<lambda>_.
     (let chemostats = [''NADH'', ''NAD'', ''O2'', ''H2O'', ''H'', ''H_E''] in
      bindM (extcall E ''st.statify'' [s] [(''chemostats'', strs chemostats)]) (\<lambda>sc.
      bindM (print [VStr ''Chemostats'', strs chemostats]) (\<lambda>_.
      bindM (extcall E ''st.sprintp'' [sc] []) (\<lambda>r.
      bindM (print [r]) (\<lambda>_.
      ret sc))))))))"

definition ME_In20 :: "library \<Rightarrow> val \<Rightarrow> val \<Rightarrow> unit M" where
  "ME_In20 E s sc =
     bindM (extcall E ''st.path'' [s, sc] []) (\<lambda>sp.
     bindM (extcall E ''st.sprintrl'' [sp] [(''chemformula'', VBool True)]) (\<lambda>r.
     bindM (extcall E ''disp.Latex'' [r] []) display))"

definition ME_In21 :: "library \<Rightarrow> val \<Rightarrow> val M" where
  "ME_In21 E sm =
     (let reaction = [''ATPS4R''] in
      bindM (extcall E ''Extract.choose'' [sm] [(''reaction'', strs reaction)]) (\<lambda>s0.
      bindM (extcall E ''st.sprintrl'' [s0] [(''chemformula'', VBool True)]) (\<lambda>r.
      bindM (extcall E ''disp.Latex'' [r] []) (\<lambda>v.
      bindM (display v) (\<lambda>_.
      ret s0)))))"

definition ME_In22 :: "library \<Rightarrow> val \<Rightarrow> val M" where
  "ME_In22 E s0 =
     bindM (setitem s0 ''name'' (VStr ''ATP_abg'')) (\<lambda>_.
     bindM (extcall E ''stbg.model'' [s0] []) (\<lambda>_.
     bindM (import_module E ''ATP_abg'') (\<lambda>ATP_abg.
     bindM (extcall E ''ATP_abg.model'' [] []) (\<lambda>bg.
     bindM (extcall E ''st.stoich'' [bg] [(''quiet'', VBool True)]) (\<lambda>s.
     bindM (sanity_check E s s0) (\<lambda>_.
     bindM (getitem s0 ''reaction'') (\<lambda>v.
     bindM (setitem s ''reaction'' v) (\<lambda>_.
     ret s))))))))"

definition ME_In23 :: "library \<Rightarrow> val \<Rightarrow> val M" where
  "ME_In23 E s =
     bindM (print [VStr ''No chemostats'']) (\<lambda>_.
     bindM (extcall E ''st.sprintp'' [s] []) (\<lambda>r.
     bindM (print [r]) (\<lambda>_.
     (let chemostats = [''H'', ''H_E'', ''ATP'', ''ADP'', ''PI'', ''H2O''] in
      bindM (extcall E ''st.statify'' [s] [(''chemostats'', strs chemostats)]) (\<lambda>sc.
      bindM (print [VStr ''Chemostats'', strs chemostats]) (\<lambda>_.
      bindM (extcall E ''st.sprintp'' [sc] [(''removeSingle'', VBool False)]) (\<lambda>r.
      bindM (print [r]) (\<lambda>_.
      ret sc))))))))"

definition ME_In24 :: "library \<Rightarrow> val \<Rightarrow> val \<Rightarrow> unit M" where
  "ME_In24 E s sc =
     bindM (extcall E ''st.path'' [s, sc] [(''removeSingle'', VBool False)]) (\<lambda>sp.
     bindM (extcall E ''st.sprintrl'' [sp] [(''chemformula'', VBool True)]) (\<lambda>r.
     bindM (extcall E ''disp.Latex'' [r] []) display))"

text \<open>
  \<^verbatim>\<open>
  GlyTCA = bgt.new(name='GlyTCA')   # Create system
  Gly = GLY_abg.model()
  TCA = PyrTCA_abg.model()
  GlyTCA.add(Gly,TCA)
  \<close>
\<close>

definition ME_In25 :: "library \<Rightarrow> val M" where
  "ME_In25 E =
     bindM (extcall E ''bgt.new'' [] [(''name'', VStr ''GlyTCA'')]) (\<lambda>GlyTCA.
     bindM (extcall E ''GLY_abg.model'' [] []) (\<lambda>Gly.
     bindM (extcall E ''PyrTCA_abg.model'' [] []) (\<lambda>TCA.
     bindM (call_method E GlyTCA ''add'' [Gly, TCA] []) (\<lambda>v.
     bindM (display v) (\<lambda>_.
     ret GlyTCA)))))"

text \<open>
  \<^verbatim>\<open>
  common = ['PYR','ATP','ADP','PI','H','NAD','NADH','H2O']
  print('Common species:', '{'+printChem(common)+'}')
  mbg.unify(GlyTCA,common=common,quiet=quiet)
  \<close>
\<close>

definition ME_In26 :: "library \<Rightarrow> val \<Rightarrow> unit M" where
  "ME_In26 E GlyTCA =
     (let common = [''PYR'', ''ATP'', ''ADP'', ''PI'', ''H'', ''NAD'', ''NADH'', ''H2O''] in
      bindM (print [VStr ''Common species:'', VStr (''{'' @ printChem common @ ''}'')]) (\<lambda>_.
      bindM (extcall E ''mbg.unify'' [GlyTCA]
               [(''common'', strs common), (''quiet'', VBool quiet)]) display))"

definition ME_In27 :: "library \<Rightarrow> val \<Rightarrow> val M" where
  "ME_In27 E GlyTCA = extcall E ''st.stoich'' [GlyTCA] [(''quiet'', VBool True)]"

definition ME_In28 :: "library \<Rightarrow> val \<Rightarrow> unit M" where
  "ME_In28 E s =
     bindM (setitem s ''name'' (VStr ''GlyTCA_abg'')) (\<lambda>_.
     bindM (extcall E ''stbg.model'' [s] []) (\<lambda>_.
     bindM (import_module E ''GlyTCA_abg'') (\<lambda>GlyTCA_abg.
     ret ())))"

text \<open>
  \<^verbatim>\<open>
  chemostats0 = ['ADP', 'ATP', 'H2O', 'NAD', 'NADH', 'PI','H','Q8','Q8H2','FOR']
  chemostats = ['GLCD_E','CO2']
  chemostats.extend(chemostats0)
  sc = st.statify(s,chemostats=chemostats)
  print('Chemostats:', printChem(chemostats))
  print(st.sprintp(sc))
  \<close>
\<close>

definition ME_In31 :: "library \<Rightarrow> val \<Rightarrow> val M" where
  "ME_In31 E s =
     (let chemostats0 = [''ADP'', ''ATP'', ''H2O'', ''NAD'', ''NADH'', ''PI'', ''H'', ''Q8'', ''Q8H2'',
                         ''FOR''];
          chemostats = [''GLCD_E'', ''CO2''];
          chemostats = chemostats @ chemostats0
      in
      bindM (extcall E ''st.statify'' [s] [(''chemostats'', strs chemostats)]) (\<lambda>sc.
      bindM (print [VStr ''Chemostats:'', VStr (printChem chemostats)]) (\<lambda>_.
      bindM (extcall E ''st.sprintp'' [sc] []) (\<lambda>r.
      bindM (print [r]) (\<lambda>_.
      ret sc)))))"

definition ME_In32 :: "library \<Rightarrow> val \<Rightarrow> val \<Rightarrow> unit M" where
  "ME_In32 E s sc =
     bindM (extcall E ''st.path'' [s, sc] []) (\<lambda>sp.
     bindM (extcall E ''st.sprintrl'' [sp] [(''chemformula'', VBool True)]) (\<lambda>r.
     bindM (extcall E ''disp.Latex'' [r] []) display))"

text \<open>
  \<^verbatim>\<open>
  Met = bgt.new(name='Met')   # Create systemGlyTCA
  GlyTCA = GlyTCA_abg.model()
  ETC = ETC_abg.model()
  ATP = ATP_abg.model()
  Met.add(GlyTCA,ETC,ATP)
  \<close>
\<close>

definition ME_In33 :: "library \<Rightarrow> val M" where
  "ME_In33 E =
     bindM (extcall E ''bgt.new'' [] [(''name'', VStr ''Met'')]) (\<lambda>Met.
     bindM (extcall E ''GlyTCA_abg.model'' [] []) (\<lambda>GlyTCA.
     bindM (extcall E ''ETC_abg.model'' [] []) (\<lambda>ETC.
     bindM (extcall E ''ATP_abg.model'' [] []) (\<lambda>ATP.
     bindM (call_method E Met ''add'' [GlyTCA, ETC, ATP] []) (\<lambda>v.
     bindM (display v) (\<lambda>_.
     ret Met))))))"

text \<open>
  \<^verbatim>\<open>
  common = ['ATP','ADP','PI','H','H_E','NAD','NADH','H2O','Q8','Q8H2']
  print('Common species:', '{'+printChem(common)+'}')
  mbg.unify(Met,common=common,quiet=True)
  \<close>
\<close>

definition ME_In34 :: "library \<Rightarrow> val \<Rightarrow> unit M" where
  "ME_In34 E Met =
     (let common = [''ATP'', ''ADP'', ''PI'', ''H'', ''H_E'', ''NAD'', ''NADH'', ''H2O'', ''Q8'', ''Q8H2''] in
      bindM (print [VStr ''Common species:'', VStr (''{'' @ printChem common @ ''}'')]) (\<lambda>_.
      bindM (extcall E ''mbg.unify'' [Met]
               [(''common'', strs common), (''quiet'', VBool True)]) display))"

definition ME_In35 :: "library \<Rightarrow> val \<Rightarrow> val M" where
  "ME_In35 E Met =
     bindM (extcall E ''st.stoich'' [Met] [(''quiet'', VBool True)]) (\<lambda>s.
     bindM (extcall E ''st.sprintrl'' [s] [(''chemformula'', VBool True)]) (\<lambda>r.
     bindM (extcall E ''disp.Latex'' [r] []) (\<lambda>v.
     bindM (display v) (\<lambda>_.
     ret s))))"

definition ME_In36 :: "library \<Rightarrow> val \<Rightarrow> val M" where
  "ME_In36 E s =
     (let chemostats0 = [''ADP'', ''ATP'', ''H2O'', ''PI'', ''H''];
          chemostats = [''GLCD_E'', ''CO2'', ''O2''];
          chemostats = chemostats @ chemostats0
      in
      bindM (extcall E ''st.statify'' [s] [(''chemostats'', strs chemostats)]) (\<lambda>sc.
      bindM (print [VStr ''Chemostats:'', VStr (printChem chemostats)]) (\<lambda>_.
      bindM (extcall E ''st.sprintp'' [sc] []) (\<lambda>r.
      bindM (print [r]) (\<lambda>_.
      ret sc)))))"

definition ME_In37 :: "library \<Rightarrow> val \<Rightarrow> val \<Rightarrow> unit M" where
  "ME_In37 E s sc =
     bindM (extcall E ''st.path'' [s, sc] []) (\<lambda>sp.
     bindM (extcall E ''st.sprintrl'' [sp] [(''chemformula'', VBool True)]) (\<lambda>r.
     bindM (extcall E ''disp.Latex'' [r] []) display))"

text \<open>The notebook run from top to bottom, each global name bound by the cell that
  last assigned it. (Cell 2 only defines \<open>printChem\<close>.)\<close>

definition ModularEcoli :: "library \<Rightarrow> unit M" where
  "ModularEcoli E =
     bindM (ME_In1 E) (\<lambda>_.
     bindM (ME_In3 E) (\<lambda>sm.
     bindM (ME_In4 E sm) (\<lambda>s0.
     bindM (ME_In5 E s0) (\<lambda>s.
     bindM (ME_In6 E s) (\<lambda>_.
     bindM (ME_In7 E sm) (\<lambda>(reaction, s0).
     bindM (ME_In8 E s0) (\<lambda>s.
     bindM (ME_In9 E s) (\<lambda>(sc0, sc).
     bindM (ME_In10 E s sc0) (\<lambda>_.
     bindM (ME_In11 E s sc) (\<lambda>_.
     bindM (ME_In12 E sm reaction) (\<lambda>s0.
     bindM (ME_In13 E s0) (\<lambda>s.
     bindM (ME_In15 E s) (\<lambda>sc.
     bindM (ME_In16 E s sc) (\<lambda>_.
     bindM (ME_In17 E sm) (\<lambda>s0.
     bindM (ME_In18 E s0) (\<lambda>s.
     bindM (ME_In19 E s) (\<lambda>sc.
     bindM (ME_In20 E s sc) (\<lambda>_.
     bindM (ME_In21 E sm) (\<lambda>s0.
     bindM (ME_In22 E s0) (\<lambda>s.
     bindM (ME_In23 E s) (\<lambda>sc.
     bindM (ME_In24 E s sc) (\<lambda>_.
     bindM (ME_In25 E) (\<lambda>GlyTCA.
     bindM (ME_In26 E GlyTCA) (\<lambda>_.
     bindM (ME_In27 E GlyTCA) (\<lambda>s.
     bindM (ME_In28 E s) (\<lambda>_.
     bindM (ME_In31 E s) (\<lambda>sc.
     bindM (ME_In32 E s sc) (\<lambda>_.
     bindM (ME_In33 E) (\<lambda>Met.
     bindM (ME_In34 E Met) (\<lambda>_.
     bindM (ME_In35 E Met) (\<lambda>s.
     bindM (ME_In36 E s) (\<lambda>sc.
     ME_In37 E s sc))))))))))))))))))))))))))))))))"

section \<open>Reference notions used to state the properties\<close>

text \<open>Joining strings with a separator between neighbours (Python's \<^verbatim>\<open>sep.join(xs)\<close>).\<close>

fun join :: "string \<Rightarrow> string list \<Rightarrow> string" where
  "join sep [] = []"
| "join sep [x] = x"
| "join sep (x # y # ys) = x @ sep @ join sep (y # ys)"

text \<open>A computation with its \<^verbatim>\<open>print\<close> events left out.\<close>

fun is_Print :: "event \<Rightarrow> bool" where
  "is_Print (Print args) = True"
| "is_Print ev = False"

definition silent :: "'a M \<Rightarrow> 'a M" where
  "silent m h = (case m h of (r, h', es) \<Rightarrow> (r, h', filter (\<lambda>ev. \<not> is_Print ev) es))"

text \<open>The exception of a call that failed.\<close>

fun failure :: "event \<Rightarrow> exn option" where
  "failure (Call n args kw (Inl e)) = Some e"
| "failure ev = None"

text \<open>
  A run in which no exception of a call is intercepted: no call but the last one
  fails, and when the last event is a failed call, its exception is the outcome of
  the run.
\<close>

definition unintercepted :: "(exn + 'a) \<times> heap \<times> event list \<Rightarrow> bool" where
  "unintercepted run =
     (case trace run of
        [] \<Rightarrow> True
      | ev # es \<Rightarrow>
          list_all (\<lambda>ev. failure ev = None) (butlast (ev # es))
          \<and> (case failure (last (ev # es)) of
                None \<Rightarrow> True
              | Some e \<Rightarrow> result run = Inl e))"

text \<open>
  The calls of \<^verbatim>\<open>Pathway\<close> as the specification words them: \<open>s = copy.copy(S)\<close>,
  \<open>sc = st.statify(s, chemostats=cs, flowstats=fs)\<close>, \<open>sp = st.path(s, sc)\<close>, the
  rendering of \<open>sp\<close> for printing, and the triple \<open>(s, sc, sp)\<close> returned; nothing
  else. Likewise \<^verbatim>\<open>pathway\<close> with \<^verbatim>\<open>computePhi=False\<close>, which starts from
  \<open>st.stoich(bg)\<close> and returns \<open>0\<close> as its fourth component.
\<close>

definition Pathway_calls :: "library \<Rightarrow> val \<Rightarrow> string list \<Rightarrow> string list \<Rightarrow> (val \<times> val \<times> val) M" where
  "Pathway_calls E S cs fs =
     bindM (copy_copy S) (\<lambda>s.
     bindM (extcall E ''st.statify'' [s] [(''chemostats'', strs cs), (''flowstats'', strs fs)]) (\<lambda>sc.
     bindM (extcall E ''st.path'' [s, sc] []) (\<lambda>sp.
     bindM (extcall E ''st.sprintrl'' [sp] [(''chemformula'', VBool True)]) (\<lambda>_.
     ret (s, sc, sp)))))"

definition pathway_calls ::
  "library \<Rightarrow> val \<Rightarrow> string list \<Rightarrow> string list \<Rightarrow> (val \<times> val \<times> val \<times> val) M" where
  "pathway_calls E bg cs fs =
     bindM (extcall E ''st.stoich'' [bg] [(''quiet'', VBool True)]) (\<lambda>s.
     bindM (extcall E ''st.statify'' [s] [(''chemostats'', strs cs), (''flowstats'', strs fs)]) (\<lambda>sc.
     bindM (extcall E ''st.path'' [s, sc] []) (\<lambda>sp.
     bindM (extcall E ''st.sprintrl'' [sp] [(''chemformula'', VBool True)]) (\<lambda>_.
     ret (s, sc, sp, VInt 0)))))"

text \<open>
  A monitor reads the events of a run one by one; it has a state and refuses an event
  by answering \<open>None\<close>. A run is accepted when no event is refused.
\<close>

primrec runmon :: "('s \<Rightarrow> event \<Rightarrow> 's option) \<Rightarrow> 's \<Rightarrow> event list \<Rightarrow> 's option" where
  "runmon step s [] = Some s"
| "runmon step s (ev # es) = (case step s ev of None \<Rightarrow> None | Some s' \<Rightarrow> runmon step s' es)"

definition accepts :: "('s \<Rightarrow> event \<Rightarrow> 's option) \<Rightarrow> 's \<Rightarrow> event list \<Rightarrow> bool" where
  "accepts step s es = (runmon step s es \<noteq> None)"

text \<open>Every run of \<open>m\<close>, watched from monitor state \<open>s\<close>, is accepted, and when it
  ends with a value, the value and the monitor's final state satisfy \<open>Q\<close>.\<close>

definition guards ::
  "('s \<Rightarrow> event \<Rightarrow> 's option) \<Rightarrow> 's \<Rightarrow> 'a M \<Rightarrow> ('a \<Rightarrow> 's \<Rightarrow> bool) \<Rightarrow> bool" where
  "guards step s m Q =
     (\<forall>h. case runmon step s (trace (m h)) of
             None \<Rightarrow> False
           | Some s' \<Rightarrow> (case result (m h) of Inl e \<Rightarrow> True | Inr x \<Rightarrow> Q x s'))"

text \<open>The event is no call, or a call of one of the names.\<close>

fun called :: "string list \<Rightarrow> event \<Rightarrow> bool" where
  "called ns (Call n args kw r) = (n \<in> set ns)"
| "called ns ev = True"

text \<open>
  The order of a pathway analysis. The monitor remembers the pairs \<open>(s, sc)\<close> for
  which \<^verbatim>\<open>st.statify(s, ...)\<close> has returned \<open>sc\<close>, and the path computed last. It
  counts the paths computed, the paths whose equations were shown directly, and the
  times the equations of the path computed last were rendered and shown once more.

  \<^item> \<^verbatim>\<open>st.path(s, sc, ...)\<close> is accepted only for a pair remembered.
  \<^item> After it has returned \<open>sp\<close>, nothing but printing may happen before
    \<^verbatim>\<open>st.sprintrl(sp, ...)\<close> is called (a \<open>Direct\<close> rendering).
  \<^item> What \<^verbatim>\<open>st.sprintrl\<close> has returned has to be what is printed, or handed to
    \<^verbatim>\<open>disp.Latex\<close>, next; the value of \<^verbatim>\<open>disp.Latex\<close> is what is displayed next.
  \<^item> \<^verbatim>\<open>disp.Latex\<close> is accepted nowhere else.
  \<^item> A \<^verbatim>\<open>st.sprintrl\<close> call at any other time renders the path computed last \<open>Again\<close>,
    or is some \<open>Other\<close> rendering (the notebooks list the reactions of a sub-network
    this way).
\<close>

datatype rendering = Direct | Again | Other

datatype stage = Idle | Computed val | Rendered rendering val | Typeset val

fun shown_after :: "rendering \<Rightarrow> nat \<Rightarrow> nat" where
  "shown_after Direct m = Suc m"
| "shown_after q m = m"

fun again_after :: "rendering \<Rightarrow> nat \<Rightarrow> nat" where
  "again_after Again k = Suc k"
| "again_after q k = k"

text \<open>The monitor's state: the pairs remembered, the path computed last, the stage,
  and the three counts.\<close>

type_synonym analysing = "(val \<times> val) list \<times> val option \<times> stage \<times> nat \<times> nat \<times> nat"

fun analysis_step :: "analysing \<Rightarrow> event \<Rightarrow> analysing option" where
  "analysis_step (known, latest, Idle, n, m, k) (Call c args kw r) =
     (if c = ''st.statify'' then
        (case (args, r) of
           ([s], Inr sc) \<Rightarrow> Some ((s, sc) # known, latest, Idle, n, m, k)
         | _ \<Rightarrow> Some (known, latest, Idle, n, m, k))
      else if c = ''st.path'' then
        (case args of
           [s, sc] \<Rightarrow>
             if (s, sc) \<in> set known
             then (case r of
                     Inr sp \<Rightarrow> Some (known, Some sp, Computed sp, Suc n, m, k)
                   | Inl e \<Rightarrow> Some (known, latest, Idle, n, m, k))
             else None
         | _ \<Rightarrow> None)
      else if c = ''st.sprintrl'' then
        (case args of
           [x] \<Rightarrow>
             (case r of
                Inr t \<Rightarrow>
                  Some (known, latest, Rendered (if latest = Some x then Again else Other) t,
                        n, m, k)
              | Inl e \<Rightarrow> Some (known, latest, Idle, n, m, k))
         | _ \<Rightarrow> None)
      else if c = ''disp.Latex'' then None
      else Some (known, latest, Idle, n, m, k))"
| "analysis_step (known, latest, Idle, n, m, k) ev = Some (known, latest, Idle, n, m, k)"
| "analysis_step (known, latest, Computed sp, n, m, k) (Call c args kw r) =
     (if c = ''st.sprintrl'' \<and> args = [sp]
      then (case r of
              Inr t \<Rightarrow> Some (known, latest, Rendered Direct t, n, m, k)
            | Inl e \<Rightarrow> Some (known, latest, Idle, n, m, k))
      else None)"
| "analysis_step (known, latest, Computed sp, n, m, k) (Print a) =
     Some (known, latest, Computed sp, n, m, k)"
| "analysis_step (known, latest, Computed sp, n, m, k) (Display v) = None"
| "analysis_step (known, latest, Rendered q t, n, m, k) (Call c args kw r) =
     (if c = ''disp.Latex'' \<and> args = [t]
      then (case r of
              Inr v \<Rightarrow>
                Some (known, latest, if v = VNone then Idle else Typeset v,
                      n, shown_after q m, again_after q k)
            | Inl e \<Rightarrow> Some (known, latest, Idle, n, m, k))
      else None)"
| "analysis_step (known, latest, Rendered q t, n, m, k) (Print a) =
     (if a = [t] then Some (known, latest, Idle, n, shown_after q m, again_after q k) else None)"
| "analysis_step (known, latest, Rendered q t, n, m, k) (Display v) = None"
| "analysis_step (known, latest, Typeset v, n, m, k) (Display w) =
     (if w = v then Some (known, latest, Idle, n, m, k) else None)"
| "analysis_step (known, latest, Typeset v, n, m, k) ev = None"

definition analysing0 :: analysing where
  "analysing0 = ([], None, Idle, 0, 0, 0)"

text \<open>
  What the monitor has found at the end of the events: the stage, the number of paths
  computed and the number of them whose equations were shown directly
  (\<open>paths_shown\<close>); and how many times the equations of the path computed last were
  shown once more (\<open>shown_again\<close>). Both are \<open>None\<close> when the monitor refuses an event.
\<close>

definition paths_shown :: "event list \<Rightarrow> (stage \<times> nat \<times> nat) option" where
  "paths_shown es =
     map_option (\<lambda>(known, latest, st, n, m, k). (st, n, m)) (runmon analysis_step analysing0 es)"

definition shown_again :: "event list \<Rightarrow> nat option" where
  "shown_again es =
     map_option (\<lambda>(known, latest, st, n, m, k). k) (runmon analysis_step analysing0 es)"

text \<open>A list of names as a value; the names handed to \<^verbatim>\<open>st.statify\<close>: \<^verbatim>\<open>chemostats\<close> has
  to be given and be a list of names, \<^verbatim>\<open>flowstats\<close> has to be one when it is given.\<close>

fun is_name :: "val \<Rightarrow> bool" where
  "is_name (VStr n) = True"
| "is_name v = False"

fun is_names :: "val \<Rightarrow> bool" where
  "is_names (VList xs) = list_all is_name xs"
| "is_names v = False"

fun names_given :: "event \<Rightarrow> bool" where
  "names_given (Call n args kw r) =
     (if n = ''st.statify'' then
        (case map_of kw ''chemostats'' of None \<Rightarrow> False | Some v \<Rightarrow> is_names v)
        \<and> (case map_of kw ''flowstats'' of None \<Rightarrow> True | Some v \<Rightarrow> is_names v)
      else True)"
| "names_given ev = True"

text \<open>Every event of every run of \<open>m\<close> satisfies \<open>P\<close>.\<close>

definition always :: "(event \<Rightarrow> bool) \<Rightarrow> 'a M \<Rightarrow> bool" where
  "always P m = (\<forall>h. list_all P (trace (m h)))"

text \<open>The \<^verbatim>\<open>flowstats\<close> a \<^verbatim>\<open>st.statify\<close> call gives, if it is one and gives any.\<close>

fun flowstats_of :: "event \<Rightarrow> val option" where
  "flowstats_of (Call n args kw r) = (if n = ''st.statify'' then map_of kw ''flowstats'' else None)"
| "flowstats_of ev = None"

text \<open>
  Flowstats against the reactions selected. The monitor remembers the \<^verbatim>\<open>reaction\<close>
  list of the latest \<^verbatim>\<open>Extract.choose\<close>; a \<^verbatim>\<open>st.statify\<close> call that gives \<^verbatim>\<open>flowstats\<close>
  is accepted only when every one of them is in that list.
\<close>

fun flowstat_step :: "val option \<Rightarrow> event \<Rightarrow> val option option" where
  "flowstat_step chosen (Call n args kw r) =
     (if n = ''Extract.choose'' then Some (map_of kw ''reaction'')
      else
        (case flowstats_of (Call n args kw r) of
           None \<Rightarrow> Some chosen
         | Some (VList fs) \<Rightarrow>
             (case chosen of
                Some (VList rs) \<Rightarrow> if set fs \<subseteq> set rs then Some chosen else None
              | _ \<Rightarrow> None)
         | Some _ \<Rightarrow> None))"
| "flowstat_step chosen ev = Some chosen"

text \<open>
  Flowstats read as species, as a check of one event against a heap: the
  \<^verbatim>\<open>flowstats\<close> of a \<^verbatim>\<open>st.statify\<close> call are among the \<^verbatim>\<open>species\<close> entry of the record
  that is the call's first argument.
\<close>

definition species_of :: "heap \<Rightarrow> val \<Rightarrow> val list" where
  "species_of h x =
     (case x of
        VRef a \<Rightarrow>
          (case lookup h a of
             Some d \<Rightarrow> (case map_of d ''species'' of Some (VList xs) \<Rightarrow> xs | _ \<Rightarrow> [])
           | None \<Rightarrow> [])
      | _ \<Rightarrow> [])"

fun flowstats_are_species :: "heap \<Rightarrow> event \<Rightarrow> bool" where
  "flowstats_are_species h (Call n args kw r) =
     (case flowstats_of (Call n args kw r) of
        Some (VList fs) \<Rightarrow>
          (case args of s # rest \<Rightarrow> set fs \<subseteq> set (species_of h s) | [] \<Rightarrow> False)
      | Some _ \<Rightarrow> False
      | None \<Rightarrow> True)"
| "flowstats_are_species h ev = True"

text \<open>
  The sub-network of the pentose-phosphate notebook as the notebook's recorded output
  of cell 5 shows it (the library that builds the record is not in the sources): the
  twelve reactions selected in cell 3, and the species that occur in them.
\<close>

definition GlyPPP_reactions :: "string list" where
  "GlyPPP_reactions =
     [''PGI'', ''PFK'', ''FBA'', ''TPI'', ''G6PDH2R'', ''PGL'', ''GND'', ''RPI'', ''TKT2'', ''TALA'',
      ''TKT1'', ''RPE'']"

definition GlyPPP_species :: "string list" where
  "GlyPPP_species =
     [''G6P'', ''F6P'', ''ATP'', ''ADP'', ''FDP'', ''H'', ''DHAP'', ''G3P'', ''NADP'', ''6PGL'',
      ''NADPH'', ''H2O'', ''6PGC'', ''CO2'', ''RU5PD'', ''R5P'', ''E4P'', ''XU5PD'', ''S7P'']"

definition GlyPPP_record :: obj where
  "GlyPPP_record = [(''reaction'', strs GlyPPP_reactions), (''species'', strs GlyPPP_species)]"




text \<open>
  Composition of bond-graph modules. The monitor keeps the latest value returned by
  each module's \<^verbatim>\<open>model()\<close>, the system made by the latest \<^verbatim>\<open>bgt.new\<close> (\<open>made\<close>), the
  system that modules were added to (\<open>filled\<close>), and the \<^verbatim>\<open>common\<close> lists unified so
  far. \<^verbatim>\<open>x.add(...)\<close> is accepted only on the system just made and only with the
  listed modules: Glycolysis and (pyruvate and) TCA first, then the Glycolysis/TCA
  composite, the electron transport chain and ATPase. \<^verbatim>\<open>mbg.unify(x, common=...)\<close> is
  accepted only on the system just filled, first with the Glycolysis/TCA list, then
  with the metabolism list, and never again.
\<close>

definition common_GlyTCA :: "string list" where
  "common_GlyTCA = [''PYR'', ''ATP'', ''ADP'', ''PI'', ''H'', ''NAD'', ''NADH'', ''H2O'']"

definition common_Met :: "string list" where
  "common_Met = [''ATP'', ''ADP'', ''PI'', ''H'', ''H_E'', ''NAD'', ''NADH'', ''H2O'', ''Q8'', ''Q8H2'']"

definition module_models :: "string list" where
  "module_models =
     [''GLY_abg.model'', ''PyrTCA_abg.model'', ''GlyTCA_abg.model'', ''ETC_abg.model'',
      ''ATP_abg.model'']"

record composing =
  models :: "(string \<times> val) list"
  made :: "val option"
  filled :: "val option"
  unified :: "val list"

fun compose_step :: "composing \<Rightarrow> event \<Rightarrow> composing option" where
  "compose_step c (Call n args kw r) =
     (if n \<in> set module_models then
        (case r of
           Inr m \<Rightarrow> Some (c\<lparr>models := (n, m) # models c\<rparr>)
         | Inl e \<Rightarrow> Some c)
      else if n = ''bgt.new'' then
        (case r of
           Inr g \<Rightarrow> Some (c\<lparr>made := Some g, filled := None\<rparr>)
         | Inl e \<Rightarrow> Some c)
      else if n = ''.add'' then
        (case args of
           g # modules \<Rightarrow>
             if made c = Some g
                \<and> map Some modules
                    = map (map_of (models c))
                        (if unified c = [] then [''GLY_abg.model'', ''PyrTCA_abg.model'']
                         else [''GlyTCA_abg.model'', ''ETC_abg.model'', ''ATP_abg.model''])
             then Some (c\<lparr>made := None, filled := Some g\<rparr>)
             else None
         | [] \<Rightarrow> None)
      else if n = ''mbg.unify'' then
        (case (args, map_of kw ''common'') of
           ([g], Some l) \<Rightarrow>
             if filled c = Some g
                \<and> (unified c = [] \<and> l = strs common_GlyTCA
                    \<or> unified c = [strs common_GlyTCA] \<and> l = strs common_Met)
             then Some (c\<lparr>filled := None, unified := unified c @ [l]\<rparr>)
             else None
         | _ \<Rightarrow> None)
      else Some c)"
| "compose_step c ev = Some c"

definition composing0 :: composing where
  "composing0 = \<lparr>models = [], made = None, filled = None, unified = []\<rparr>"

text \<open>The \<^verbatim>\<open>common\<close> lists of the \<^verbatim>\<open>mbg.unify\<close> calls among the events, in order.\<close>

fun common_of :: "event \<Rightarrow> val option" where
  "common_of (Call n args kw r) =
     (if n = ''mbg.unify'' then Some (case map_of kw ''common'' of Some l \<Rightarrow> l | None \<Rightarrow> VNone)
      else None)"
| "common_of ev = None"

definition unify_commons :: "event list \<Rightarrow> val list" where
  "unify_commons es = List.map_filter common_of es"

text \<open>A library that leaves the object at address \<open>a\<close> as it is, whatever it is called
  with.\<close>

definition untouched :: "library \<Rightarrow> nat \<Rightarrow> bool" where
  "untouched E a =
     (\<forall>c h. a < length h \<longrightarrow> a < length (snd (E c h)) \<and> snd (E c h) ! a = h ! a)"

text \<open>A computation that leaves the object at address \<open>a\<close> as it is.\<close>

definition frame :: "nat \<Rightarrow> obj \<Rightarrow> 'a M \<Rightarrow> bool" where
  "frame a d m =
     (\<forall>h. a < length h \<and> h ! a = d \<longrightarrow> a < length (heap_of (m h)) \<and> heap_of (m h) ! a = d)"

text \<open>The first argument of every \<^verbatim>\<open>st.statify\<close> and \<^verbatim>\<open>st.path\<close> call among the events.\<close>

fun analysed :: "event \<Rightarrow> val list" where
  "analysed (Call n args kw r) =
     (if n = ''st.statify'' \<or> n = ''st.path'' then take 1 args else [])"
| "analysed ev = []"

text \<open>Two libraries for running the code on concrete inputs: one answers every call
  with a fresh empty object, the other fails every \<^verbatim>\<open>st.path\<close> call.\<close>

definition fresh_library :: library where
  "fresh_library c h = (Inr (VRef (length h)), h @ [[]])"

definition failing_path_library :: library where
  "failing_path_library c h =
     (if fst c = ''st.path'' then (Inl (Raised ''singular''), h)
      else (Inr (VRef (length h)), h @ [[]]))"

text \<open>
  A library with which both notebooks run to their end. \<^verbatim>\<open>getattr\<close> answers with a
  fresh table that has an entry for the Faraday constant (value, unit, uncertainty);
  every other call answers with a fresh record whose \<^verbatim>\<open>N\<close> is a fresh object and whose
  \<^verbatim>\<open>reaction\<close> is an empty list.
\<close>

definition stocked_library :: library where
  "stocked_library c h =
     (if fst c = ''getattr''
      then (Inr (VRef (length h)),
            h @ [[(''Faraday constant'', VList [VInt 96485, VStr ''C mol^-1'', VInt 0])]])
      else (Inr (VRef (Suc (length h))),
            h @ [[], [(''N'', VRef (length h)), (''reaction'', VList [])]]))"

section \<open>Properties of the pure helper functions\<close>

lemma printChem_foldl:
  "foldl (\<lambda>Chem c. Chem @ (CHR 0x5C # ''ch{'' @ c @ ''}, '')) acc chem
     = acc @ concat (map (\<lambda>c. ch c @ '', '') chem)"
  by (induction chem arbitrary: acc) (simp_all add: ch_def)

lemma concat_tokens_length:
  "chem \<noteq> [] \<Longrightarrow> 2 \<le> length (concat (map (\<lambda>c. ch c @ '', '') chem))"
  by (cases chem) simp_all

lemma take_keeps_front:
  "n \<le> length ys \<Longrightarrow> take (length (xs @ ys) - n) (xs @ ys) = xs @ take (length ys - n) ys"
  by simp

lemma drop_last_sep:
  "take (length (concat (map (\<lambda>c. ch c @ '', '') chem)) - 2)
        (concat (map (\<lambda>c. ch c @ '', '') chem)) = join '', '' (map ch chem)"
proof (induction chem)
  case Nil
  show ?case by simp
next
  case (Cons c cs)
  show ?case
  proof (cases cs)
    case Nil
    then show ?thesis by simp
  next
    case (Cons d ds)
    let ?rest = "concat (map (\<lambda>c. ch c @ '', '') cs)"
    have len: "2 \<le> length ?rest"
      using Cons concat_tokens_length [of cs] by simp
    have "take (length ((ch c @ '', '') @ ?rest) - 2) ((ch c @ '', '') @ ?rest)
            = (ch c @ '', '') @ take (length ?rest - 2) ?rest"
      using len by (rule take_keeps_front)
    then show ?thesis
      using Cons.IH Cons by simp
  qed
qed

text \<open>
  C10. For every list of names, \<open>printChem\<close> returns the names, each wrapped as
  \<^verbatim>\<open>\ch{name}\<close> (the string \<open>ch name\<close>), joined by a comma and a space with no
  separator after the last; on the empty list it returns the empty string.
\<close>

theorem printChem_joins:
  "printChem chem = join '', '' (map ch chem) \<and> printChem [] = []"
  unfolding printChem_def Let_def printChem_foldl
  by (simp add: drop_last_sep)

theorem printChem_joins_witness:
  "printChem [''PYR'', ''ATP''] = CHR 0x5C # ''ch{PYR}, '' @ CHR 0x5C # ''ch{ATP}''"
  using printChem_joins [of "[''PYR'', ''ATP'']"] by (simp add: ch_def)

text \<open>
  C9. \<open>Chemostats\<close> returns the seven base species, then \<open>start\<close>, then the elements
  of \<open>end\<close> when \<open>end\<close> is not \<^verbatim>\<open>None\<close>; a call without \<open>start\<close> is the call with
  \<open>start = 'G6P'\<close>; every result contains the seven base species; with \<open>end\<close> being
  \<^verbatim>\<open>None\<close> the result has eight elements.
\<close>

theorem Chemostats_returns:
  "Chemostats (Some start) end_arg
     = [''ADP'', ''ATP'', ''CO2'', ''H'', ''H2O'', ''NADP'', ''NADPH''] @ [start]
         @ (case end_arg of None \<Rightarrow> [] | Some e \<Rightarrow> e)
   \<and> Chemostats None end_arg = Chemostats (Some ''G6P'') end_arg
   \<and> set [''ADP'', ''ATP'', ''CO2'', ''H'', ''H2O'', ''NADP'', ''NADPH'']
        \<subseteq> set (Chemostats start_arg end_arg)
   \<and> length (Chemostats start_arg None) = 8"
  by (simp add: Chemostats_def dflt_def Let_def split: option.split)

theorem Chemostats_returns_witness:
  "Chemostats (Some ''G6P'') (Some [''R5P''])
     = [''ADP'', ''ATP'', ''CO2'', ''H'', ''H2O'', ''NADP'', ''NADPH'', ''G6P'', ''R5P'']
   \<and> Chemostats None None
     = [''ADP'', ''ATP'', ''CO2'', ''H'', ''H2O'', ''NADP'', ''NADPH'', ''G6P'']"
  using Chemostats_returns [of "''G6P''" "Some [''R5P'']" None]
        Chemostats_returns [of "''G6P''" None None]
  by simp

section \<open>Running the notebook code\<close>

lemma run_parts [simp]:
  "result (r, h, es) = r" "heap_of (r, h, es) = h" "trace (r, h, es) = es"
  by (simp_all add: result_def heap_of_def trace_def)

subsection \<open>Leaving out the printing\<close>

lemma silent_ret [simp]: "silent (ret x) = ret x"
  by (rule ext) (simp add: silent_def ret_def)

lemma silent_print [simp]: "silent (print args) = ret ()"
  by (rule ext) (simp add: silent_def print_def ret_def)

lemma silent_extcall [simp]: "silent (extcall E n args kw) = extcall E n args kw"
  by (rule ext) (simp add: silent_def extcall_def split: prod.split)

lemma silent_copy_copy [simp]: "silent (copy_copy x) = copy_copy x"
  by (rule ext) (simp add: silent_def copy_copy_def split: prod.split)

lemma silent_bindM [simp]: "silent (bindM m f) = bindM (silent m) (\<lambda>x. silent (f x))"
  by (rule ext) (simp add: silent_def bindM_def split: prod.split sum.split)

lemma bindM_ret_left [simp]: "bindM (ret x) f = f x"
  by (rule ext) (simp add: bindM_def ret_def split: prod.split)

lemma silent_foreach_print [simp]: "silent (foreach xs (\<lambda>x. print [g x])) = ret ()"
  by (induction xs) simp_all

lemma silent_if [simp]: "silent (if b then m else n) = (if b then silent m else silent n)"
  by simp

lemma Pathway_silent: "silent (Pathway E S cs fa va) = Pathway_calls E S cs (dflt [] fa)"
  by (simp add: Pathway_def Pathway_calls_def Let_def)

lemma pathway_silent:
  "dflt False ca = False \<Longrightarrow>
   silent (pathway E bg phi cs fa ca va) = pathway_calls E bg cs (dflt [] fa)"
  by (simp add: pathway_def pathway_calls_def Let_def)

lemma result_silent: "result (silent m h) = result (m h)"
  by (simp add: silent_def split: prod.split)

lemma Pathway_calls_returns:
  assumes "result (Pathway_calls E S cs fs h) = Inr (s, sc, sp)"
  shows "result (copy_copy S h) = Inr s
     \<and> result (extcall E ''st.statify'' [s] [(''chemostats'', strs cs), (''flowstats'', strs fs)]
                 (heap_of (copy_copy S h))) = Inr sc
     \<and> result (extcall E ''st.path'' [s, sc] []
                 (heap_of (extcall E ''st.statify'' [s]
                             [(''chemostats'', strs cs), (''flowstats'', strs fs)]
                             (heap_of (copy_copy S h))))) = Inr sp"
  using assms
  by (auto simp: Pathway_calls_def bindM_def ret_def split: prod.splits sum.splits)

text \<open>
  C1. \<open>Pathway\<close> and \<open>pathway\<close> are glue over the library calls. Leaving the printing
  out, \<open>Pathway(S, cs, fs)\<close> is the sequence of calls \<open>s = copy.copy(S)\<close>,
  \<open>sc = st.statify(s, chemostats=cs, flowstats=fs)\<close>, \<open>sp = st.path(s, sc)\<close> and the
  rendering of \<open>sp\<close> that is printed, with the same outcome, the same heap and the same
  calls; when it returns, it returns the triple of what these three calls returned.
  Likewise \<open>pathway\<close> with \<open>computePhi\<close> left out or \<open>False\<close> is \<open>st.stoich(bg)\<close>,
  \<open>st.statify\<close>, \<open>st.path\<close> and the rendering, returning these and \<open>0\<close>.
\<close>

theorem Pathway_is_glue:
  "silent (Pathway E S cs fa va) = Pathway_calls E S cs (dflt [] fa)
   \<and> (result (Pathway E S cs fa va h) = Inr (s, sc, sp) \<longrightarrow>
        result (copy_copy S h) = Inr s
        \<and> result (extcall E ''st.statify'' [s]
                    [(''chemostats'', strs cs), (''flowstats'', strs (dflt [] fa))]
                    (heap_of (copy_copy S h))) = Inr sc
        \<and> result (extcall E ''st.path'' [s, sc] []
                    (heap_of (extcall E ''st.statify'' [s]
                                [(''chemostats'', strs cs), (''flowstats'', strs (dflt [] fa))]
                                (heap_of (copy_copy S h))))) = Inr sp)
   \<and> silent (pathway E bg phi cs fa None va) = pathway_calls E bg cs (dflt [] fa)
   \<and> silent (pathway E bg phi cs fa (Some False) va) = pathway_calls E bg cs (dflt [] fa)"
proof -
  have "result (Pathway E S cs fa va h) = result (Pathway_calls E S cs (dflt [] fa) h)"
    using result_silent [of "Pathway E S cs fa va" h] by (simp add: Pathway_silent)
  then show ?thesis
    using Pathway_calls_returns [of E S cs "dflt [] fa" h s sc sp]
    by (simp add: Pathway_silent pathway_silent dflt_def)
qed

theorem Pathway_is_glue_witness:
  "result (Pathway fresh_library (VRef 0) [''ATP''] (Some [''PGI'']) None [[]])
     = Inr (VRef 1, VRef 2, VRef 3)
   \<and> result (copy_copy (VRef 0) [[]]) = Inr (VRef 1)
   \<and> result (extcall fresh_library ''st.statify'' [VRef 1]
                [(''chemostats'', strs [''ATP'']), (''flowstats'', strs [''PGI''])]
                (heap_of (copy_copy (VRef 0) [[]]))) = Inr (VRef 2)
   \<and> silent (Pathway fresh_library (VRef 0) [''ATP''] (Some [''PGI'']) None) [[]]
     = (Inr (VRef 1, VRef 2, VRef 3), [[], [], [], [], []],
        [Call ''copy.copy'' [VRef 0] [] (Inr (VRef 1)),
         Call ''st.statify'' [VRef 1]
           [(''chemostats'', VList [VStr ''ATP'']), (''flowstats'', VList [VStr ''PGI''])]
           (Inr (VRef 2)),
         Call ''st.path'' [VRef 1, VRef 2] [] (Inr (VRef 3)),
         Call ''st.sprintrl'' [VRef 3] [(''chemformula'', VBool True)] (Inr (VRef 4))])"
  using Pathway_is_glue [of fresh_library "VRef 0" "[''ATP'']" "Some [''PGI'']" None "[[]]"
                            "VRef 1" "VRef 2" "VRef 3"]
  by (simp add: Pathway_def Pathway_calls_def bindM_def print_def copy_copy_def shallow_copy_def
        lookup_def extcall_def fresh_library_def ret_def strs_def dflt_def Let_def)

subsection \<open>Exceptions of calls are not intercepted\<close>

lemma unintercepted_iff:
  "unintercepted (r, h, es) \<longleftrightarrow>
     list_all (\<lambda>ev. failure ev = None) es
     \<or> (\<exists>ys y e. es = ys @ [y] \<and> list_all (\<lambda>ev. failure ev = None) ys
            \<and> failure y = Some e \<and> r = Inl e)"
proof (cases es rule: rev_cases)
  case Nil
  then show ?thesis by (simp add: unintercepted_def)
next
  case (snoc ys y)
  have "unintercepted (r, h, ys @ [y]) \<longleftrightarrow>
          list_all (\<lambda>ev. failure ev = None) ys
          \<and> (case failure y of None \<Rightarrow> True | Some e \<Rightarrow> r = Inl e)"
    by (cases ys) (simp_all add: unintercepted_def split: option.split)
  then show ?thesis using snoc by (auto split: option.splits)
qed

lemma unintercepted_value:
  "unintercepted (Inr x, h, es) \<Longrightarrow> list_all (\<lambda>ev. failure ev = None) es"
  by (auto simp: unintercepted_iff)

lemma unintercepted_error:
  "unintercepted (Inl e, h, es) \<Longrightarrow> unintercepted (Inl e, h', es)"
  by (simp add: unintercepted_iff)

lemma unintercepted_after:
  "list_all (\<lambda>ev. failure ev = None) es1 \<Longrightarrow> unintercepted (r, h, es2) \<Longrightarrow>
   unintercepted (r, h', es1 @ es2)"
  unfolding unintercepted_iff
proof (elim disjE exE conjE)
  assume "list_all (\<lambda>ev. failure ev = None) es1" "list_all (\<lambda>ev. failure ev = None) es2"
  then show "list_all (\<lambda>ev. failure ev = None) (es1 @ es2)
      \<or> (\<exists>ys y e. es1 @ es2 = ys @ [y] \<and> list_all (\<lambda>ev. failure ev = None) ys
             \<and> failure y = Some e \<and> r = Inl e)"
    by simp
next
  fix ys y e
  assume "list_all (\<lambda>ev. failure ev = None) es1" "es2 = ys @ [y]"
    "list_all (\<lambda>ev. failure ev = None) ys" "failure y = Some e" "r = Inl e"
  then have "es1 @ es2 = (es1 @ ys) @ [y] \<and> list_all (\<lambda>ev. failure ev = None) (es1 @ ys)
      \<and> failure y = Some e \<and> r = Inl e"
    by simp
  then show "list_all (\<lambda>ev. failure ev = None) (es1 @ es2)
      \<or> (\<exists>ys y e. es1 @ es2 = ys @ [y] \<and> list_all (\<lambda>ev. failure ev = None) ys
             \<and> failure y = Some e \<and> r = Inl e)"
    by blast
qed

lemma unintercepted_bindM:
  assumes "unintercepted (m h)" and "\<And>x h1. unintercepted (f x h1)"
  shows "unintercepted (bindM m f h)"
proof (cases "m h")
  case (fields r h1 es1)
  show ?thesis
  proof (cases r)
    case (Inl e)
    then show ?thesis using assms(1) fields
      by (simp add: bindM_def unintercepted_error [of e h1 es1 h1])
  next
    case (Inr x)
    then have clean: "list_all (\<lambda>ev. failure ev = None) es1"
      using assms(1) fields by (simp add: unintercepted_value)
    obtain r2 h2 es2 where f: "f x h1 = (r2, h2, es2)" by (cases "f x h1")
    have "unintercepted (r2, h2, es1 @ es2)"
      using unintercepted_after [OF clean, of r2 h2 es2 h2] assms(2) [of x h1] f by simp
    then show ?thesis using fields Inr f by (simp add: bindM_def)
  qed
qed

lemma unintercepted_ret: "unintercepted (ret x h)"
  by (simp add: ret_def unintercepted_def)

lemma unintercepted_raise: "unintercepted (raise e h)"
  by (simp add: raise_def unintercepted_def)

lemma unintercepted_print: "unintercepted (print args h)"
  by (simp add: print_def unintercepted_def)

lemma unintercepted_display: "unintercepted (display v h)"
  by (simp add: display_def unintercepted_def)

lemma unintercepted_single: "unintercepted (r, h, [Call n args kw r])"
  by (cases r) (simp_all add: unintercepted_def)

lemma unintercepted_extcall: "unintercepted (extcall E n args kw h)"
  by (simp add: extcall_def unintercepted_single split: prod.split)

lemma unintercepted_call_method: "unintercepted (call_method E recv n args kw h)"
  by (simp add: call_method_def unintercepted_extcall)

lemma unintercepted_copy_copy: "unintercepted (copy_copy x h)"
  by (simp add: copy_copy_def unintercepted_single split: prod.split)

lemma unintercepted_getitem: "unintercepted (getitem x k h)"
  by (simp add: getitem_def unintercepted_def split: val.split option.split)

lemma unintercepted_getindex: "unintercepted (getindex x i h)"
  by (simp add: getindex_def unintercepted_def split: val.split option.split)

lemma unintercepted_setitem: "unintercepted (setitem x k v h)"
  by (simp add: setitem_def unintercepted_def split: val.split option.split)

lemma unintercepted_two_items: "unintercepted (two_items xs h)"
  by (simp add: two_items_def unintercepted_ret unintercepted_raise split: list.split)

lemma unintercepted_unpack2: "unintercepted (unpack2 E x h)"
  by (cases x)
     (auto simp: unpack2_def intro!: unintercepted_bindM unintercepted_extcall
        unintercepted_two_items unintercepted_raise split: val.split)

lemma unintercepted_foreach:
  "(\<And>x h. unintercepted (f x h)) \<Longrightarrow> unintercepted (foreach xs f h)"
  by (induction xs arbitrary: h) (auto intro!: unintercepted_bindM unintercepted_ret)

lemmas unintercepted_intros =
  unintercepted_bindM unintercepted_ret unintercepted_raise unintercepted_print
  unintercepted_display unintercepted_extcall unintercepted_call_method
  unintercepted_copy_copy unintercepted_getitem unintercepted_getindex
  unintercepted_setitem unintercepted_unpack2 unintercepted_foreach

lemmas ME_cells =
  ModularEcoli_def ME_In1_def ME_In3_def ME_In4_def ME_In5_def ME_In6_def ME_In7_def ME_In8_def
  ME_In9_def ME_In10_def ME_In11_def ME_In12_def ME_In13_def ME_In15_def ME_In16_def ME_In17_def
  ME_In18_def ME_In19_def ME_In20_def ME_In21_def ME_In22_def ME_In23_def ME_In24_def ME_In25_def
  ME_In26_def ME_In27_def ME_In28_def ME_In31_def ME_In32_def ME_In33_def ME_In34_def ME_In35_def
  ME_In36_def ME_In37_def sanity_check_def

lemma unintercepted_import_module: "unintercepted (import_module E name h)"
  by (simp add: import_module_def unintercepted_extcall)

lemma unintercepted_case_prod:
  "(\<And>a b. unintercepted (f a b h)) \<Longrightarrow> unintercepted ((case x of (a, b) \<Rightarrow> f a b) h)"
  by (cases x) simp

lemma unintercepted_case_prod3:
  "(\<And>a b c. unintercepted (f a b c h)) \<Longrightarrow> unintercepted ((case x of (a, b, c) \<Rightarrow> f a b c) h)"
  by (cases x) simp

lemma unintercepted_Pathway: "unintercepted (Pathway E S cs fa va h)"
  unfolding Pathway_def Let_def
  by (auto intro!: unintercepted_intros split: prod.split)

lemma unintercepted_EcoliPPP: "unintercepted (EcoliPPP E h)"
  unfolding EcoliPPP_def PPP_In1_def PPP_In2_def PPP_In3_def PPP_In4_def PPP_In5_def PPP_In8_def
    PPP_In9_def PPP_In10_def Let_def
  by (intro unintercepted_intros unintercepted_import_module unintercepted_case_prod
        unintercepted_case_prod3 unintercepted_Pathway)

lemma unintercepted_ModularEcoli: "unintercepted (ModularEcoli E h)"
  unfolding ME_cells Let_def
  by (intro unintercepted_intros unintercepted_import_module unintercepted_case_prod
        unintercepted_case_prod3)

text \<open>
  C3. No notebook code handles an exception. In every run of \<open>Pathway\<close>, of \<open>pathway\<close>
  and of either notebook, against any library and from any heap, no call but the last
  one fails, and when the last call fails, its exception is the outcome of the run,
  unchanged. (\<open>Chemostats\<close>, \<open>ch\<close> and \<open>printChem\<close> make no call.)
\<close>

theorem failures_propagate:
  "unintercepted (Pathway E S cs fa va h)
   \<and> unintercepted (pathway E bg phi cs fa ca va h)
   \<and> unintercepted (EcoliPPP E h)
   \<and> unintercepted (ModularEcoli E h)"
proof -
  have "unintercepted (pathway E bg phi cs fa ca va h)"
    unfolding pathway_def Let_def
    by (auto intro!: unintercepted_intros split: prod.split)
  then show ?thesis
    by (simp add: unintercepted_Pathway unintercepted_EcoliPPP unintercepted_ModularEcoli)
qed

theorem failures_propagate_witness:
  "unintercepted (Pathway failing_path_library (VRef 0) [''ATP''] None None [[]])
   \<and> result (Pathway failing_path_library (VRef 0) [''ATP''] None None [[]])
       = Inl (Raised ''singular'')
   \<and> last (trace (Pathway failing_path_library (VRef 0) [''ATP''] None None [[]]))
       = Call ''st.path'' [VRef 1, VRef 2] [] (Inl (Raised ''singular''))"
  using failures_propagate [of failing_path_library "VRef 0" "[''ATP'']" None None "[[]]"]
  by (simp add: Pathway_def bindM_def print_def copy_copy_def shallow_copy_def lookup_def
        extcall_def failing_path_library_def ret_def strs_def dflt_def Let_def)

subsection \<open>Pathway works on a copy\<close>

lemma frame_ret: "frame a d (ret x)"
  by (simp add: frame_def ret_def)

lemma frame_print: "frame a d (print args)"
  by (simp add: frame_def print_def)

lemma frame_copy_copy: "frame a d (copy_copy x)"
  by (auto simp: frame_def copy_copy_def shallow_copy_def nth_append
        split: val.split option.split)

lemma frame_extcall: "untouched E a \<Longrightarrow> frame a d (extcall E n args kw)"
  unfolding frame_def untouched_def
  by (simp add: extcall_def split: prod.split) (metis snd_conv)

lemma frame_bindM:
  assumes "frame a d m" and "\<And>x. frame a d (f x)"
  shows "frame a d (bindM m f)"
  unfolding frame_def
proof (intro allI impI)
  fix h
  assume h: "a < length h \<and> h ! a = d"
  obtain r h1 es1 where m: "m h = (r, h1, es1)" by (cases "m h")
  have one: "a < length h1 \<and> h1 ! a = d"
    using assms(1) h m unfolding frame_def by (metis run_parts(2))
  show "a < length (heap_of (bindM m f h)) \<and> heap_of (bindM m f h) ! a = d"
  proof (cases r)
    case (Inl e)
    then show ?thesis using m one by (simp add: bindM_def)
  next
    case (Inr x)
    obtain r2 h2 es2 where f: "f x h1 = (r2, h2, es2)" by (cases "f x h1")
    have "a < length h2 \<and> h2 ! a = d"
      using assms(2) [of x] one f unfolding frame_def by (metis run_parts(2))
    then show ?thesis using m Inr f by (simp add: bindM_def)
  qed
qed

lemma frame_foreach: "(\<And>x. frame a d (f x)) \<Longrightarrow> frame a d (foreach xs f)"
  by (induction xs) (simp_all add: frame_bindM frame_ret)

lemma frame_Pathway: "untouched E a \<Longrightarrow> frame a d (Pathway E S cs fa va)"
  unfolding Pathway_def Let_def
  by (intro frame_bindM frame_print frame_copy_copy frame_extcall frame_ret)
     (simp_all add: frame_foreach frame_print frame_ret)

lemma analysed_without_prints:
  "concat (map analysed (filter (\<lambda>ev. \<not> is_Print ev) es)) = concat (map analysed es)"
proof (induction es)
  case Nil
  show ?case by simp
next
  case (Cons ev es)
  then show ?case by (cases ev) simp_all
qed

lemma analysed_silent:
  "concat (map analysed (trace (silent m h))) = concat (map analysed (trace (m h)))"
  by (simp add: silent_def analysed_without_prints split: prod.split)

lemma copy_copy_record:
  "a < length h \<Longrightarrow>
   copy_copy (VRef a) h
     = (Inr (VRef (length h)), h @ [h ! a],
        [Call ''copy.copy'' [VRef a] [] (Inr (VRef (length h)))])"
  by (simp add: copy_copy_def shallow_copy_def lookup_def)

lemma Pathway_calls_on_copy:
  assumes "a < length h"
  shows "list_all (\<lambda>v. v = VRef (length h))
           (concat (map analysed (trace (Pathway_calls E (VRef a) cs fs h))))
       \<and> (\<forall>t. result (Pathway_calls E (VRef a) cs fs h) = Inr t \<longrightarrow> fst t = VRef (length h))"
  using copy_copy_record [OF assms]
  by (auto simp: Pathway_calls_def bindM_def extcall_def ret_def split: prod.splits sum.splits)

text \<open>
  C8. \<open>Pathway\<close> works on a copy. When \<open>S\<close> is a record and the library leaves that
  record alone, the record has the entries after the call that it had before;
  \<open>copy.copy\<close> makes a new object with the same entries; every \<open>st.statify\<close> and
  \<open>st.path\<close> call is handed that new object, never \<open>S\<close>; and the first component of
  the triple returned is the new object, distinct from \<open>S\<close>.
\<close>

theorem Pathway_frame:
  assumes "a < length h" and "untouched E a"
  shows "a < length (heap_of (Pathway E (VRef a) cs fa va h))
     \<and> heap_of (Pathway E (VRef a) cs fa va h) ! a = h ! a
     \<and> heap_of (copy_copy (VRef a) h) ! length h = h ! a
     \<and> list_all (\<lambda>v. v = VRef (length h) \<and> v \<noteq> VRef a)
         (concat (map analysed (trace (Pathway E (VRef a) cs fa va h))))
     \<and> (\<forall>t. result (Pathway E (VRef a) cs fa va h) = Inr t \<longrightarrow>
            fst t = VRef (length h) \<and> fst t \<noteq> VRef a)"
proof -
  have glue: "silent (Pathway E (VRef a) cs fa va) = Pathway_calls E (VRef a) cs (dflt [] fa)"
    by (rule Pathway_silent)
  have kept: "a < length (heap_of (Pathway E (VRef a) cs fa va h))
      \<and> heap_of (Pathway E (VRef a) cs fa va h) ! a = h ! a"
    using frame_Pathway [OF assms(2), of "h ! a" "VRef a" cs fa va] assms(1)
    unfolding frame_def by blast
  have distinct: "VRef (length h) \<noteq> VRef a"
    using assms(1) by simp
  have args: "list_all (\<lambda>v. v = VRef (length h))
      (concat (map analysed (trace (Pathway E (VRef a) cs fa va h))))"
    using Pathway_calls_on_copy [OF assms(1), of E cs "dflt [] fa"]
      analysed_silent [of "Pathway E (VRef a) cs fa va" h]
    by (simp add: glue)
  have res: "\<forall>t. result (Pathway E (VRef a) cs fa va h) = Inr t \<longrightarrow> fst t = VRef (length h)"
    using Pathway_calls_on_copy [OF assms(1), of E cs "dflt [] fa"]
      result_silent [of "Pathway E (VRef a) cs fa va" h]
    by (simp add: glue)
  have copied: "heap_of (copy_copy (VRef a) h) ! length h = h ! a"
    by (simp add: copy_copy_record [OF assms(1)])
  show ?thesis
    using kept distinct args res copied by (auto simp: list_all_iff)
qed

lemma untouched_fresh_library: "untouched fresh_library a"
  by (simp add: untouched_def fresh_library_def nth_append)

theorem Pathway_frame_witness:
  "(0::nat) < length [[(''N'', VInt 1)]] \<and> untouched fresh_library 0
   \<and> heap_of (Pathway fresh_library (VRef 0) [''ATP''] None None [[(''N'', VInt 1)]]) ! 0
       = [(''N'', VInt 1)]
   \<and> heap_of (copy_copy (VRef 0) [[(''N'', VInt 1)]]) ! 1 = [(''N'', VInt 1)]
   \<and> concat (map analysed (trace (Pathway fresh_library (VRef 0) [''ATP''] None None
                                    [[(''N'', VInt 1)]]))) = [VRef 1, VRef 1]
   \<and> result (Pathway fresh_library (VRef 0) [''ATP''] None None [[(''N'', VInt 1)]])
       = Inr (VRef 1, VRef 2, VRef 3)"
  using Pathway_frame [of 0 "[[(''N'', VInt 1)]]" fresh_library "[''ATP'']" None None]
    untouched_fresh_library [of 0]
  by (simp add: Pathway_def bindM_def print_def copy_copy_def shallow_copy_def lookup_def
        extcall_def fresh_library_def ret_def strs_def dflt_def Let_def)

section \<open>Properties of the events of every run\<close>

subsection \<open>Rules for properties of every event\<close>

lemma always_ret: "always P (ret x)"
  by (simp add: always_def ret_def)

lemma always_raise: "always P (raise e)"
  by (simp add: always_def raise_def)

lemma always_print: "P (Print a) \<Longrightarrow> always P (print a)"
  by (simp add: always_def print_def)

lemma always_display: "P (Display v) \<Longrightarrow> always P (display v)"
  by (simp add: always_def display_def)

lemma always_extcall: "(\<And>r. P (Call n args kw r)) \<Longrightarrow> always P (extcall E n args kw)"
  by (simp add: always_def extcall_def split: prod.split)

lemma always_call_method:
  "(\<And>r. P (Call (''.'' @ n) (recv # args) kw r)) \<Longrightarrow> always P (call_method E recv n args kw)"
  unfolding call_method_def by (rule always_extcall)

lemma always_import_module:
  "(\<And>r. P (Call ''import'' [VStr name] [] r)) \<Longrightarrow> always P (import_module E name)"
  unfolding import_module_def by (rule always_extcall)

lemma always_copy_copy: "(\<And>r. P (Call ''copy.copy'' [x] [] r)) \<Longrightarrow> always P (copy_copy x)"
  by (simp add: always_def copy_copy_def split: prod.split)

lemma always_getitem: "always P (getitem x k)"
  by (simp add: always_def getitem_def split: val.split option.split)

lemma always_getindex: "always P (getindex x i)"
  by (simp add: always_def getindex_def split: val.split option.split)

lemma always_setitem: "always P (setitem x k v)"
  by (simp add: always_def setitem_def split: val.split option.split)

lemma always_bindM:
  assumes "always P m" and "\<And>x. always P (f x)"
  shows "always P (bindM m f)"
  unfolding always_def
proof
  fix h
  obtain r h1 es1 where m: "m h = (r, h1, es1)" by (cases "m h")
  have one: "list_all P es1" using assms(1) m unfolding always_def by (metis run_parts(3))
  show "list_all P (trace (bindM m f h))"
  proof (cases r)
    case (Inl e)
    then show ?thesis using m one by (simp add: bindM_def)
  next
    case (Inr x)
    obtain r2 h2 es2 where f: "f x h1 = (r2, h2, es2)" by (cases "f x h1")
    have "list_all P es2" using assms(2) [of x] f unfolding always_def by (metis run_parts(3))
    then show ?thesis using m one Inr f by (simp add: bindM_def)
  qed
qed

lemma always_foreach: "(\<And>x. always P (f x)) \<Longrightarrow> always P (foreach xs f)"
  by (induction xs) (simp_all add: always_bindM always_ret)

lemma always_two_items: "always P (two_items xs)"
  by (simp add: two_items_def always_ret always_raise split: list.split)

lemma always_unpack2: "(\<And>r. P (Call ''iter'' [x] [] r)) \<Longrightarrow> always P (unpack2 E x)"
  by (cases x)
     (auto simp: unpack2_def intro!: always_bindM always_extcall always_two_items always_raise
        split: val.split)

lemma always_weaken: "always P m \<Longrightarrow> (\<And>ev. P ev \<Longrightarrow> P' ev) \<Longrightarrow> always P' m"
  unfolding always_def by (auto simp: list_all_iff)

lemma alwaysD: "always P m \<Longrightarrow> list_all P (trace (m h))"
  by (simp add: always_def)

lemma always_if: "always P m \<Longrightarrow> always P n \<Longrightarrow> always P (if b then m else n)"
  by simp

lemmas always_intros =
  always_bindM always_ret always_raise always_print always_display always_extcall
  always_call_method always_import_module always_copy_copy always_getitem always_getindex
  always_setitem always_foreach always_unpack2 always_if

lemma always_case_prod: "(\<And>a b. always P (f a b)) \<Longrightarrow> always P (case x of (a, b) \<Rightarrow> f a b)"
  by (cases x) simp

lemma always_case_prod3:
  "(\<And>a b c. always P (f a b c)) \<Longrightarrow> always P (case x of (a, b, c) \<Rightarrow> f a b c)"
  by (cases x) simp

subsection \<open>Rules for monitors\<close>

lemma runmon_append:
  "runmon step s (es1 @ es2) = (case runmon step s es1 of None \<Rightarrow> None | Some s' \<Rightarrow> runmon step s' es2)"
  by (induction es1 arbitrary: s) (simp_all split: option.split)

lemma guards_run:
  assumes "guards step s m Q" and "m h = (r, h1, es1)"
  shows "\<exists>s1. runmon step s es1 = Some s1 \<and> (\<forall>x. r = Inr x \<longrightarrow> Q x s1)"
proof -
  from assms(1) have "case runmon step s (trace (m h)) of None \<Rightarrow> False
      | Some s' \<Rightarrow> (case result (m h) of Inl e \<Rightarrow> True | Inr x \<Rightarrow> Q x s')"
    unfolding guards_def by blast
  then show ?thesis using assms(2) by (cases "runmon step s es1") auto
qed

lemma guardsI:
  assumes "\<And>h r h1 es1. m h = (r, h1, es1) \<Longrightarrow>
             \<exists>s1. runmon step s es1 = Some s1 \<and> (\<forall>x. r = Inr x \<longrightarrow> Q x s1)"
  shows "guards step s m Q"
  unfolding guards_def
proof
  fix h
  obtain r h1 es1 where m: "m h = (r, h1, es1)" by (cases "m h")
  from assms [OF m] show "case runmon step s (trace (m h)) of None \<Rightarrow> False
      | Some s' \<Rightarrow> (case result (m h) of Inl e \<Rightarrow> True | Inr x \<Rightarrow> Q x s')"
    using m by (auto split: sum.split)
qed

lemma guards_ret: "Q x s \<Longrightarrow> guards step s (ret x) Q"
  by (simp add: guards_def ret_def)

lemma guards_print: "\<exists>s'. step s (Print a) = Some s' \<and> Q () s' \<Longrightarrow> guards step s (print a) Q"
  by (auto simp: guards_def print_def)

lemma guards_display:
  "(v = VNone \<Longrightarrow> Q () s) \<Longrightarrow>
   (v \<noteq> VNone \<Longrightarrow> \<exists>s'. step s (Display v) = Some s' \<and> Q () s') \<Longrightarrow>
   guards step s (display v) Q"
  by (auto simp: guards_def display_def)

lemma guards_extcall:
  assumes "\<And>e. step s (Call n args kw (Inl e)) \<noteq> None"
    and "\<And>x. \<exists>s'. step s (Call n args kw (Inr x)) = Some s' \<and> Q x s'"
  shows "guards step s (extcall E n args kw) Q"
proof (rule guardsI)
  fix h r h1 es1
  assume "extcall E n args kw h = (r, h1, es1)"
  then have es: "es1 = [Call n args kw r]"
    by (auto simp: extcall_def split: prod.splits)
  show "\<exists>s1. runmon step s es1 = Some s1 \<and> (\<forall>x. r = Inr x \<longrightarrow> Q x s1)"
  proof (cases r)
    case (Inl e)
    then show ?thesis using assms(1) [of e] es by auto
  next
    case (Inr x)
    then show ?thesis using assms(2) [of x] es by auto
  qed
qed

lemma guards_call_method:
  "(\<And>e. step s (Call (''.'' @ n) (recv # args) kw (Inl e)) \<noteq> None) \<Longrightarrow>
   (\<And>x. \<exists>s'. step s (Call (''.'' @ n) (recv # args) kw (Inr x)) = Some s' \<and> Q x s') \<Longrightarrow>
   guards step s (call_method E recv n args kw) Q"
  unfolding call_method_def by (rule guards_extcall)

lemma guards_import_module:
  "(\<And>e. step s (Call ''import'' [VStr name] [] (Inl e)) \<noteq> None) \<Longrightarrow>
   (\<And>x. \<exists>s'. step s (Call ''import'' [VStr name] [] (Inr x)) = Some s' \<and> Q x s') \<Longrightarrow>
   guards step s (import_module E name) Q"
  unfolding import_module_def by (rule guards_extcall)

lemma guards_copy_copy:
  assumes "\<And>e. step s (Call ''copy.copy'' [v] [] (Inl e)) \<noteq> None"
    and "\<And>x. \<exists>s'. step s (Call ''copy.copy'' [v] [] (Inr x)) = Some s' \<and> Q x s'"
  shows "guards step s (copy_copy v) Q"
proof (rule guardsI)
  fix h r h1 es1
  assume "copy_copy v h = (r, h1, es1)"
  then have es: "es1 = [Call ''copy.copy'' [v] [] r]"
    by (auto simp: copy_copy_def split: prod.splits)
  show "\<exists>s1. runmon step s es1 = Some s1 \<and> (\<forall>x. r = Inr x \<longrightarrow> Q x s1)"
  proof (cases r)
    case (Inl e)
    then show ?thesis using assms(1) [of e] es by auto
  next
    case (Inr x)
    then show ?thesis using assms(2) [of x] es by auto
  qed
qed

lemma guards_getitem: "(\<And>x. Q x s) \<Longrightarrow> guards step s (getitem v k) Q"
  by (simp add: guards_def getitem_def split: val.split option.split)

lemma guards_getindex: "(\<And>x. Q x s) \<Longrightarrow> guards step s (getindex v i) Q"
  by (simp add: guards_def getindex_def split: val.split option.split)

lemma guards_setitem: "(\<And>x. Q x s) \<Longrightarrow> guards step s (setitem v k w) Q"
  by (simp add: guards_def setitem_def split: val.split option.split)

lemma guards_bindM:
  assumes "guards step s m (\<lambda>x s'. guards step s' (f x) Q)"
  shows "guards step s (bindM m f) Q"
proof (rule guardsI)
  fix h r h2 es
  assume b: "bindM m f h = (r, h2, es)"
  obtain r1 h1 es1 where m: "m h = (r1, h1, es1)" by (cases "m h")
  from guards_run [OF assms m] obtain s1 where s1: "runmon step s es1 = Some s1"
    and q: "\<forall>x. r1 = Inr x \<longrightarrow> guards step s1 (f x) Q"
    by blast
  show "\<exists>s2. runmon step s es = Some s2 \<and> (\<forall>x. r = Inr x \<longrightarrow> Q x s2)"
  proof (cases r1)
    case (Inl e)
    then show ?thesis using m s1 b by (auto simp: bindM_def)
  next
    case (Inr x)
    obtain r2 k2 es2 where f: "f x h1 = (r2, k2, es2)" by (cases "f x h1")
    from q Inr have "guards step s1 (f x) Q" by simp
    from guards_run [OF this f] obtain s2 where "runmon step s1 es2 = Some s2"
      "\<forall>y. r2 = Inr y \<longrightarrow> Q y s2"
      by blast
    then show ?thesis using m s1 Inr f b by (auto simp: bindM_def runmon_append)
  qed
qed

lemma guards_weaken:
  assumes "guards step s m R" and "\<And>x s'. R x s' \<Longrightarrow> Q x s'"
  shows "guards step s m Q"
proof (rule guardsI)
  fix h r h1 es1
  assume "m h = (r, h1, es1)"
  from guards_run [OF assms(1) this] obtain s1 where "runmon step s es1 = Some s1"
    "\<forall>x. r = Inr x \<longrightarrow> R x s1"
    by blast
  then show "\<exists>s1. runmon step s es1 = Some s1 \<and> (\<forall>x. r = Inr x \<longrightarrow> Q x s1)"
    using assms(2) by auto
qed

lemma runmon_ignored:
  "list_all (\<lambda>ev. step s ev = Some s) es \<Longrightarrow> runmon step s es = Some s"
  by (induction es) simp_all

lemma guards_always:
  assumes "always P m" and "\<And>ev. P ev \<Longrightarrow> step s ev = Some s" and "\<And>x. Q x s"
  shows "guards step s m Q"
proof (rule guardsI)
  fix h r h1 es1
  assume m: "m h = (r, h1, es1)"
  have "list_all P es1" using assms(1) m unfolding always_def by (metis run_parts(3))
  then have "list_all (\<lambda>ev. step s ev = Some s) es1"
    using assms(2) by (auto simp: list_all_iff)
  then show "\<exists>s1. runmon step s es1 = Some s1 \<and> (\<forall>x. r = Inr x \<longrightarrow> Q x s1)"
    using assms(3) by (simp add: runmon_ignored)
qed

lemma guards_foreach_print:
  "(\<And>a. step s (Print a) = Some s) \<Longrightarrow> Q () s \<Longrightarrow>
   guards step s (foreach xs (\<lambda>x. print [g x])) Q"
  by (induction xs) (auto intro!: guards_ret guards_bindM guards_print)

lemma guards_accepts: "guards step s m Q \<Longrightarrow> accepts step s (trace (m h))"
  using guards_run [of step s m Q h "result (m h)" "heap_of (m h)" "trace (m h)"]
  by (auto simp: accepts_def result_def heap_of_def trace_def)

lemmas guards_intros =
  guards_bindM guards_ret guards_print guards_display guards_extcall guards_call_method
  guards_import_module guards_copy_copy guards_getitem guards_getindex guards_setitem

subsection \<open>The names each cell calls\<close>

lemma called_Pathway:
  "always (called [''copy.copy'', ''st.statify'', ''st.path'', ''st.sprintrl'']) (Pathway E S chemostats flowstats_arg verbose_arg)"
  unfolding Pathway_def Let_def
  by (intro always_intros always_case_prod always_case_prod3 allI; simp)

lemma called_pathway:
  "always (called [''st.stoich'', ''st.statify'', ''st.path'', ''energetics'', ''iter'', ''st.sprintp'', ''st.sprintrl'', ''disp.Latex'']) (pathway E bg phi chemostats flowstats_arg computePhi_arg verbose_arg)"
  unfolding pathway_def Let_def
  by (intro always_intros always_case_prod always_case_prod3 allI; simp)

lemma called_PPP_In1:
  "always (called [''import'', ''getattr'', ''setattr'']) (PPP_In1 E)"
  unfolding PPP_In1_def Let_def
  by (intro always_intros always_case_prod always_case_prod3 allI; simp)

lemma called_PPP_In2:
  "always (called [''Extract.extract'']) (PPP_In2 E)"
  unfolding PPP_In2_def Let_def
  by (intro always_intros always_case_prod always_case_prod3 allI; simp)

lemma called_PPP_In3:
  "always (called [''Extract.choose'', ''stbg.model'']) (PPP_In3 E sm)"
  unfolding PPP_In3_def Let_def
  by (intro always_intros always_case_prod always_case_prod3 allI; simp)

lemma called_PPP_In4:
  "always (called [''import'', ''GlyPPP_abg.model'', ''st.stoich'']) (PPP_In4 E)"
  unfolding PPP_In4_def Let_def
  by (intro always_intros always_case_prod always_case_prod3 allI; simp)

lemma called_PPP_In5:
  "always (called [''st.sprintrl'', ''disp.Latex'']) (PPP_In5 E sGlyPPP)"
  unfolding PPP_In5_def Let_def
  by (intro always_intros always_case_prod always_case_prod3 allI; simp)

lemma called_PPP_In8:
  "always (called [''imp.reload'', ''copy.copy'', ''st.statify'', ''st.path'', ''st.sprintrl'', ''disp.Latex'']) (PPP_In8 E st S)"
  unfolding PPP_In8_def Pathway_def Let_def
  by (intro always_intros always_case_prod always_case_prod3 allI; simp)

lemma called_PPP_In9:
  "always (called [''copy.copy'', ''st.statify'', ''st.path'', ''st.sprintrl'', ''disp.Latex'']) (PPP_In9 E S)"
  unfolding PPP_In9_def Pathway_def Let_def
  by (intro always_intros always_case_prod always_case_prod3 allI; simp)

lemma called_PPP_In10:
  "always (called [''copy.copy'', ''st.statify'', ''st.path'', ''st.sprintrl'', ''disp.Latex'']) (PPP_In10 E S)"
  unfolding PPP_In10_def Pathway_def Let_def
  by (intro always_intros always_case_prod always_case_prod3 allI; simp)

lemma called_ME_In1:
  "always (called [''import'']) (ME_In1 E)"
  unfolding ME_In1_def Let_def
  by (intro always_intros always_case_prod always_case_prod3 allI; simp)

lemma called_ME_In3:
  "always (called [''Extract.extract'']) (ME_In3 E)"
  unfolding ME_In3_def Let_def
  by (intro always_intros always_case_prod always_case_prod3 allI; simp)

lemma called_ME_In4:
  "always (called [''Extract.choose'', ''st.sprintrl'', ''disp.Latex'']) (ME_In4 E sm)"
  unfolding ME_In4_def Let_def
  by (intro always_intros always_case_prod always_case_prod3 allI; simp)

lemma called_sanity_check:
  "always (called [''operator.sub'', ''np.linalg.norm'']) (sanity_check E s s0)"
  unfolding sanity_check_def Let_def
  by (intro always_intros always_case_prod always_case_prod3 allI; simp)

lemma called_ME_In5:
  "always (called [''stbg.model'', ''import'', ''GLY_abg.model'', ''st.stoich'', ''operator.sub'', ''np.linalg.norm'']) (ME_In5 E s0)"
  unfolding ME_In5_def sanity_check_def Let_def
  by (intro always_intros always_case_prod always_case_prod3 allI; simp)

lemma called_ME_In6:
  "always (called [''st.statify'', ''st.sprintp'', ''st.path'', ''st.sprintrl'', ''disp.Latex'']) (ME_In6 E s)"
  unfolding ME_In6_def Let_def
  by (intro always_intros always_case_prod always_case_prod3 allI; simp)

lemma called_ME_In7:
  "always (called [''Extract.choose'', ''st.sprintrl'', ''disp.Latex'']) (ME_In7 E sm)"
  unfolding ME_In7_def Let_def
  by (intro always_intros always_case_prod always_case_prod3 allI; simp)

lemma called_ME_In8:
  "always (called [''stbg.model'', ''import'', ''TCA_abg.model'', ''st.stoich'', ''operator.sub'', ''np.linalg.norm'']) (ME_In8 E s0)"
  unfolding ME_In8_def sanity_check_def Let_def
  by (intro always_intros always_case_prod always_case_prod3 allI; simp)

lemma called_ME_In9:
  "always (called [''st.sprintp'', ''st.statify'']) (ME_In9 E s)"
  unfolding ME_In9_def Let_def
  by (intro always_intros always_case_prod always_case_prod3 allI; simp)

lemma called_ME_In10:
  "always (called [''st.path'', ''st.sprintrl'', ''disp.Latex'']) (ME_In10 E s sc0)"
  unfolding ME_In10_def Let_def
  by (intro always_intros always_case_prod always_case_prod3 allI; simp)

lemma called_ME_In11:
  "always (called [''st.path'', ''st.sprintrl'', ''disp.Latex'']) (ME_In11 E s sc)"
  unfolding ME_In11_def Let_def
  by (intro always_intros always_case_prod always_case_prod3 allI; simp)

lemma called_ME_In12:
  "always (called [''Extract.choose'', ''st.sprintrl'', ''disp.Latex'']) (ME_In12 E sm reaction0)"
  unfolding ME_In12_def Let_def
  by (intro always_intros always_case_prod always_case_prod3 allI; simp)

lemma called_ME_In13:
  "always (called [''stbg.model'', ''import'', ''PyrTCA_abg.model'', ''st.stoich'', ''operator.sub'', ''np.linalg.norm'']) (ME_In13 E s0)"
  unfolding ME_In13_def sanity_check_def Let_def
  by (intro always_intros always_case_prod always_case_prod3 allI; simp)

lemma called_ME_In15:
  "always (called [''st.sprintp'', ''st.statify'']) (ME_In15 E s)"
  unfolding ME_In15_def Let_def
  by (intro always_intros always_case_prod always_case_prod3 allI; simp)

lemma called_ME_In16:
  "always (called [''st.path'', ''st.sprintrl'', ''disp.Latex'']) (ME_In16 E s sc)"
  unfolding ME_In16_def Let_def
  by (intro always_intros always_case_prod always_case_prod3 allI; simp)

lemma called_ME_In17:
  "always (called [''Extract.choose'', ''st.sprintrl'', ''disp.Latex'']) (ME_In17 E sm)"
  unfolding ME_In17_def Let_def
  by (intro always_intros always_case_prod always_case_prod3 allI; simp)

lemma called_ME_In18:
  "always (called [''stbg.model'', ''import'', ''ETC_abg.model'', ''st.stoich'', ''operator.sub'', ''np.linalg.norm'']) (ME_In18 E s0)"
  unfolding ME_In18_def sanity_check_def Let_def
  by (intro always_intros always_case_prod always_case_prod3 allI; simp)

lemma called_ME_In19:
  "always (called [''st.sprintp'', ''st.statify'']) (ME_In19 E s)"
  unfolding ME_In19_def Let_def
  by (intro always_intros always_case_prod always_case_prod3 allI; simp)

lemma called_ME_In20:
  "always (called [''st.path'', ''st.sprintrl'', ''disp.Latex'']) (ME_In20 E s sc)"
  unfolding ME_In20_def Let_def
  by (intro always_intros always_case_prod always_case_prod3 allI; simp)

lemma called_ME_In21:
  "always (called [''Extract.choose'', ''st.sprintrl'', ''disp.Latex'']) (ME_In21 E sm)"
  unfolding ME_In21_def Let_def
  by (intro always_intros always_case_prod always_case_prod3 allI; simp)

lemma called_ME_In22:
  "always (called [''stbg.model'', ''import'', ''ATP_abg.model'', ''st.stoich'', ''operator.sub'', ''np.linalg.norm'']) (ME_In22 E s0)"
  unfolding ME_In22_def sanity_check_def Let_def
  by (intro always_intros always_case_prod always_case_prod3 allI; simp)

lemma called_ME_In23:
  "always (called [''st.sprintp'', ''st.statify'']) (ME_In23 E s)"
  unfolding ME_In23_def Let_def
  by (intro always_intros always_case_prod always_case_prod3 allI; simp)

lemma called_ME_In24:
  "always (called [''st.path'', ''st.sprintrl'', ''disp.Latex'']) (ME_In24 E s sc)"
  unfolding ME_In24_def Let_def
  by (intro always_intros always_case_prod always_case_prod3 allI; simp)

lemma called_ME_In25:
  "always (called [''bgt.new'', ''GLY_abg.model'', ''PyrTCA_abg.model'', ''.add'']) (ME_In25 E)"
  unfolding ME_In25_def Let_def
  by (intro always_intros always_case_prod always_case_prod3 allI; simp)

lemma called_ME_In26:
  "always (called [''mbg.unify'']) (ME_In26 E GlyTCA)"
  unfolding ME_In26_def Let_def
  by (intro always_intros always_case_prod always_case_prod3 allI; simp)

lemma called_ME_In27:
  "always (called [''st.stoich'']) (ME_In27 E GlyTCA)"
  unfolding ME_In27_def Let_def
  by (intro always_intros always_case_prod always_case_prod3 allI; simp)

lemma called_ME_In28:
  "always (called [''stbg.model'', ''import'']) (ME_In28 E s)"
  unfolding ME_In28_def Let_def
  by (intro always_intros always_case_prod always_case_prod3 allI; simp)

lemma called_ME_In31:
  "always (called [''st.statify'', ''st.sprintp'']) (ME_In31 E s)"
  unfolding ME_In31_def Let_def
  by (intro always_intros always_case_prod always_case_prod3 allI; simp)

lemma called_ME_In32:
  "always (called [''st.path'', ''st.sprintrl'', ''disp.Latex'']) (ME_In32 E s sc)"
  unfolding ME_In32_def Let_def
  by (intro always_intros always_case_prod always_case_prod3 allI; simp)

lemma called_ME_In33:
  "always (called [''bgt.new'', ''GlyTCA_abg.model'', ''ETC_abg.model'', ''ATP_abg.model'', ''.add'']) (ME_In33 E)"
  unfolding ME_In33_def Let_def
  by (intro always_intros always_case_prod always_case_prod3 allI; simp)

lemma called_ME_In34:
  "always (called [''mbg.unify'']) (ME_In34 E Met)"
  unfolding ME_In34_def Let_def
  by (intro always_intros always_case_prod always_case_prod3 allI; simp)

lemma called_ME_In35:
  "always (called [''st.stoich'', ''st.sprintrl'', ''disp.Latex'']) (ME_In35 E Met)"
  unfolding ME_In35_def Let_def
  by (intro always_intros always_case_prod always_case_prod3 allI; simp)

lemma called_ME_In36:
  "always (called [''st.statify'', ''st.sprintp'']) (ME_In36 E s)"
  unfolding ME_In36_def Let_def
  by (intro always_intros always_case_prod always_case_prod3 allI; simp)

lemma called_ME_In37:
  "always (called [''st.path'', ''st.sprintrl'', ''disp.Latex'']) (ME_In37 E s sc)"
  unfolding ME_In37_def Let_def
  by (intro always_intros always_case_prod always_case_prod3 allI; simp)

subsection \<open>Names given to statify\<close>

lemma names_by_called:
  "always (called ns) m \<Longrightarrow> ''st.statify'' \<notin> set ns \<Longrightarrow>
   always (\<lambda>ev. names_given ev \<and> flowstats_of ev = None) m"
proof (erule always_weaken)
  fix ev
  assume "''st.statify'' \<notin> set ns" "called ns ev"
  then show "names_given ev \<and> flowstats_of ev = None" by (cases ev) auto
qed

lemma is_names_strs [simp]: "is_names (strs xs)"
  by (simp add: strs_def list_all_iff)

lemma names_ME_In6: "always (\<lambda>ev. names_given ev \<and> flowstats_of ev = None) (ME_In6 E s)"
  unfolding ME_In6_def Let_def by (intro always_intros; simp)

lemma names_ME_In9: "always (\<lambda>ev. names_given ev \<and> flowstats_of ev = None) (ME_In9 E s)"
  unfolding ME_In9_def Let_def by (intro always_intros; simp)

lemma names_ME_In15: "always (\<lambda>ev. names_given ev \<and> flowstats_of ev = None) (ME_In15 E s)"
  unfolding ME_In15_def Let_def by (intro always_intros; simp)

lemma names_ME_In19: "always (\<lambda>ev. names_given ev \<and> flowstats_of ev = None) (ME_In19 E s)"
  unfolding ME_In19_def Let_def by (intro always_intros; simp)

lemma names_ME_In23: "always (\<lambda>ev. names_given ev \<and> flowstats_of ev = None) (ME_In23 E s)"
  unfolding ME_In23_def Let_def by (intro always_intros; simp)

lemma names_ME_In31: "always (\<lambda>ev. names_given ev \<and> flowstats_of ev = None) (ME_In31 E s)"
  unfolding ME_In31_def Let_def by (intro always_intros; simp)

lemma names_ME_In36: "always (\<lambda>ev. names_given ev \<and> flowstats_of ev = None) (ME_In36 E s)"
  unfolding ME_In36_def Let_def by (intro always_intros; simp)

lemmas names_ME_cells =
  names_ME_In6 names_ME_In9 names_ME_In15 names_ME_In19 names_ME_In23 names_ME_In31 names_ME_In36

lemmas called_ME_cells =
  called_ME_In1 called_ME_In3 called_ME_In4 called_ME_In5 called_ME_In7 called_ME_In8
  called_ME_In10 called_ME_In11 called_ME_In12 called_ME_In13 called_ME_In16 called_ME_In17
  called_ME_In18 called_ME_In20 called_ME_In21 called_ME_In22 called_ME_In24 called_ME_In25
  called_ME_In26 called_ME_In27 called_ME_In28 called_ME_In32 called_ME_In33 called_ME_In34
  called_ME_In35 called_ME_In37

lemma names_ModularEcoli:
  "always (\<lambda>ev. names_given ev \<and> flowstats_of ev = None) (ModularEcoli E)"
  unfolding ModularEcoli_def
  by (intro always_bindM always_case_prod)
     (rule names_ME_cells | (rule names_by_called, rule called_ME_cells, simp))+


lemma names_pathway: "always names_given (pathway E bg phi cs fa ca va)"
  unfolding pathway_def Let_def
  by (intro always_intros always_case_prod; simp)







subsection \<open>Chemostats are names of species\<close>
















subsection \<open>What is handed on to statify\<close>



subsection \<open>Chemostats on arguments of any kind\<close>

lemma Chemostats_untyped_names:
  "Chemostats_untyped E (map_option VStr start_arg) (map_option strs end_arg)
     = ret (strs (Chemostats start_arg end_arg))"
  by (cases start_arg; cases end_arg)
     (simp_all add: Chemostats_untyped_def Chemostats_def iterate_def strs_def dflt_def Let_def
        bindM_def ret_def fun_eq_iff)







lemma guards_case_prod:
  "(\<And>a b. guards step s (f a b) Q) \<Longrightarrow> guards step s (case x of (a, b) \<Rightarrow> f a b) Q"
  by (cases x) simp

lemma guards_case_prod3:
  "(\<And>a b c. guards step s (f a b c) Q) \<Longrightarrow> guards step s (case x of (a, b, c) \<Rightarrow> f a b c) Q"
  by (cases x) simp

lemma guards_if:
  "(b \<Longrightarrow> guards step s m Q) \<Longrightarrow> (\<not> b \<Longrightarrow> guards step s n Q) \<Longrightarrow>
   guards step s (if b then m else n) Q"
  by simp

subsection \<open>The order of the analyses\<close>



text \<open>\<^verbatim>\<open>disp.Latex(st.sprintrl(x, ...))\<close> as a cell's last statement, when no path has just
  been computed.\<close>

lemma analysis_render_typeset:
  assumes "Q () (known, latest, Idle, n, m, again_after (if latest = Some x then Again else Other) k)"
  shows "guards analysis_step (known, latest, Idle, n, m, k)
           (bindM (extcall E ''st.sprintrl'' [x] kw) (\<lambda>r.
            bindM (extcall E ''disp.Latex'' [r] []) display)) Q"
  using assms
  by (auto intro!: guards_bindM guards_extcall guards_display)

lemma analysis_render_typeset_ret:
  assumes "Q y (known, latest, Idle, n, m, again_after (if latest = Some x then Again else Other) k)"
  shows "guards analysis_step (known, latest, Idle, n, m, k)
           (bindM (extcall E ''st.sprintrl'' [x] kw) (\<lambda>r.
            bindM (extcall E ''disp.Latex'' [r] []) (\<lambda>v.
            bindM (display v) (\<lambda>_. ret y)))) Q"
  using assms
  by (auto intro!: guards_bindM guards_extcall guards_display guards_ret)






























text \<open>What the monitor refuses, and what it does not count.\<close>

lemma analysis_refuses_unknown_pair:
  "\<not> accepts analysis_step analysing0
       [Call ''st.statify'' [VRef 1] [] (Inr (VRef 2)),
        Call ''st.path'' [VRef 0, VRef 2] [] (Inr (VRef 3))]"
  by (simp add: accepts_def analysing0_def)

lemma analysis_refuses_other_rendering:
  "\<not> accepts analysis_step analysing0
       [Call ''st.statify'' [VRef 1] [] (Inr (VRef 2)),
        Call ''st.path'' [VRef 1, VRef 2] [] (Inr (VRef 3)),
        Call ''st.sprintrl'' [VRef 2] [] (Inr (VRef 4))]"
  by (simp add: accepts_def analysing0_def)

lemma analysis_refuses_path_not_rendered:
  "\<not> accepts analysis_step analysing0
       [Call ''st.statify'' [VRef 1] [] (Inr (VRef 2)),
        Call ''st.path'' [VRef 1, VRef 2] [] (Inr (VRef 3)),
        Call ''st.statify'' [VRef 1] [] (Inr (VRef 4))]"
  "paths_shown
       [Call ''st.statify'' [VRef 1] [] (Inr (VRef 2)),
        Call ''st.path'' [VRef 1, VRef 2] [] (Inr (VRef 3))] = Some (Computed (VRef 3), 1, 0)"
  by (simp_all add: accepts_def analysing0_def paths_shown_def)

lemma analysis_refuses_other_typeset:
  "\<not> accepts analysis_step analysing0 [Call ''disp.Latex'' [VStr ''x''] [] (Inr (VRef 1))]"
  "\<not> accepts analysis_step analysing0
       [Call ''st.statify'' [VRef 1] [] (Inr (VRef 2)),
        Call ''st.path'' [VRef 1, VRef 2] [] (Inr (VRef 3)),
        Call ''st.sprintrl'' [VRef 3] [] (Inr (VRef 4)),
        Call ''disp.Latex'' [VStr ''x''] [] (Inr (VRef 5))]"
  by (simp_all add: accepts_def analysing0_def)

lemma analysis_counts_no_other_rendering:
  "shown_again
       [Call ''st.statify'' [VRef 1] [] (Inr (VRef 2)),
        Call ''st.path'' [VRef 1, VRef 2] [] (Inr (VRef 3)),
        Call ''st.sprintrl'' [VRef 3] [] (Inr (VRef 4)),
        Print [VRef 4],
        Call ''st.sprintrl'' [VRef 2] [] (Inr (VRef 5)),
        Call ''disp.Latex'' [VRef 5] [] (Inr (VRef 6)),
        Display (VRef 6)] = Some 0"
  by (simp add: analysing0_def shown_again_def)

text \<open>Both notebooks, and \<open>Pathway\<close>, run to their end with the stocked library.\<close>

lemma stocked_run: "result (ModularEcoli stocked_library [[]]) = Inr ()"
  by code_simp





subsection \<open>Flowstats are reactions of the sub-network\<close>

lemma flowstat_ignores:
  "called ns ev \<Longrightarrow> ''Extract.choose'' \<notin> set ns \<Longrightarrow> ''st.statify'' \<notin> set ns \<Longrightarrow>
   flowstat_step chosen ev = Some chosen"
  by (cases ev) auto

lemma flowstat_irrelevant:
  assumes "always (called ns) m" and "''Extract.choose'' \<notin> set ns" and "''st.statify'' \<notin> set ns"
    and "\<And>x. Q x chosen"
  shows "guards flowstat_step chosen m Q"
  using assms(1)
proof (rule guards_always)
  fix ev
  assume "called ns ev"
  then show "flowstat_step chosen ev = Some chosen"
    using assms(2,3) by (rule flowstat_ignores)
next
  fix x
  show "Q x chosen" by (rule assms(4))
qed

lemma flowstat_PPP_In3:
  "(\<And>x. Q x (Some (strs GlyPPP_reactions))) \<Longrightarrow> guards flowstat_step chosen (PPP_In3 E sm) Q"
  unfolding PPP_In3_def Let_def
  by (auto intro!: guards_intros simp: GlyPPP_reactions_def)

lemma flowstat_Pathway:
  "set fs \<subseteq> set rs \<Longrightarrow> (\<And>t. Q t (Some (strs rs))) \<Longrightarrow>
   guards flowstat_step (Some (strs rs)) (Pathway E S cs (Some fs) va) Q"
  unfolding Pathway_def Let_def
  by (auto intro!: guards_intros guards_foreach_print simp: strs_def dflt_def) blast+

lemma flowstat_PPP_In8:
  "Q () (Some (strs GlyPPP_reactions)) \<Longrightarrow>
   guards flowstat_step (Some (strs GlyPPP_reactions)) (PPP_In8 E st S) Q"
  unfolding PPP_In8_def Let_def
  by (auto intro!: guards_intros flowstat_Pathway guards_case_prod3 simp: GlyPPP_reactions_def)

lemma flowstat_PPP_In9:
  "Q () (Some (strs GlyPPP_reactions)) \<Longrightarrow>
   guards flowstat_step (Some (strs GlyPPP_reactions)) (PPP_In9 E S) Q"
  unfolding PPP_In9_def Let_def
  by (auto intro!: guards_intros flowstat_Pathway guards_case_prod3 simp: GlyPPP_reactions_def)

lemma flowstat_PPP_In10:
  "Q () (Some (strs GlyPPP_reactions)) \<Longrightarrow>
   guards flowstat_step (Some (strs GlyPPP_reactions)) (PPP_In10 E S) Q"
  unfolding PPP_In10_def Let_def
  by (auto intro!: guards_intros flowstat_Pathway guards_case_prod3 simp: GlyPPP_reactions_def)

lemma flowstat_EcoliPPP: "guards flowstat_step None (EcoliPPP E) (\<lambda>x chosen. True)"
  unfolding EcoliPPP_def
  apply (rule guards_bindM, rule flowstat_irrelevant [OF called_PPP_In1], simp, simp)
  apply (rule guards_bindM, rule flowstat_irrelevant [OF called_PPP_In2], simp, simp)
  apply (rule guards_bindM, rule flowstat_PPP_In3)
  apply (rule guards_case_prod)
  apply (rule guards_bindM, rule flowstat_irrelevant [OF called_PPP_In4], simp, simp)
  apply (rule guards_bindM, rule flowstat_irrelevant [OF called_PPP_In5], simp, simp)
  apply (rule guards_bindM, rule flowstat_PPP_In8)
  apply (rule guards_bindM, rule flowstat_PPP_In9)
  apply (rule flowstat_PPP_In10)
  apply simp
  done

lemma flowstat_free:
  "list_all (\<lambda>ev. flowstats_of ev = None) es \<Longrightarrow> runmon flowstat_step chosen es \<noteq> None"
proof (induction es arbitrary: chosen)
  case Nil
  show ?case by simp
next
  case (Cons ev es)
  then show ?case by (cases ev) (auto split: option.splits)
qed

text \<open>The monitor refuses a flowstat that is not among the reactions selected.\<close>

lemma flowstat_refuses_species:
  "\<not> accepts flowstat_step None
       [Call ''Extract.choose'' [] [(''reaction'', VList [VStr ''PGI''])] (Inr (VRef 1)),
        Call ''st.statify'' [VRef 1] [(''chemostats'', VList []), (''flowstats'', VList [VStr ''G6P''])]
          (Inr (VRef 2))]"
  by (simp add: accepts_def)

text \<open>
  C2, as amended. Flowstats designate reactions: in every run of the pentose-phosphate
  notebook each name in the \<open>flowstats\<close> given to \<open>st.statify\<close> is one of the
  reactions that were selected with \<open>Extract.choose\<close> for the sub-network analysed;
  the modular notebook gives no \<open>flowstats\<close> at all.
\<close>

theorem flowstats_are_reactions:
  "accepts flowstat_step None (trace (EcoliPPP E h))
   \<and> accepts flowstat_step None (trace (ModularEcoli E h))
   \<and> list_all (\<lambda>ev. flowstats_of ev = None) (trace (ModularEcoli E h))"
proof -
  have "list_all (\<lambda>ev. names_given ev \<and> flowstats_of ev = None) (trace (ModularEcoli E h))"
    by (rule alwaysD [OF names_ModularEcoli])
  then have none: "list_all (\<lambda>ev. flowstats_of ev = None) (trace (ModularEcoli E h))"
    by (simp add: list_all_iff)
  show ?thesis
    using guards_accepts [OF flowstat_EcoliPPP, of E h] flowstat_free [OF none, of None] none
    by (simp add: accepts_def)
qed

text \<open>
  C2, as stated, fails. Run cell 8 with \<open>S\<close> bound to the recorded sub-network: the
  \<open>st.statify\<close> call is given the flowstats \<open>PGI\<close> and \<open>TKT2\<close>, which are reactions
  of that record and not among its species.
\<close>

theorem flowstats_not_species:
  "\<not> list_all (flowstats_are_species (heap_of (PPP_In8 fresh_library (VRef 1) (VRef 0) [GlyPPP_record, []])))
         (trace (PPP_In8 fresh_library (VRef 1) (VRef 0) [GlyPPP_record, []]))"
  by (simp add: PPP_In8_def Pathway_def Chemostats_def Let_def bindM_def extcall_def print_def
        display_def ret_def copy_copy_def shallow_copy_def lookup_def fresh_library_def dflt_def
        strs_def species_of_def GlyPPP_record_def GlyPPP_species_def nth_append)

subsection \<open>Composition of modules\<close>

lemma compose_ignores:
  "called ns ev \<Longrightarrow> set ns \<inter> set (module_models @ [''bgt.new'', ''.add'', ''mbg.unify'']) = {} \<Longrightarrow>
   compose_step c ev = Some c"
  by (cases ev) (auto simp: module_models_def)

lemma compose_irrelevant:
  assumes "always (called ns) m"
    and "set ns \<inter> set (module_models @ [''bgt.new'', ''.add'', ''mbg.unify'']) = {}"
    and "\<And>x. Q x c"
  shows "guards compose_step c m Q"
  using assms(1)
proof (rule guards_always)
  fix ev
  assume "called ns ev"
  then show "compose_step c ev = Some c"
    using assms(2) by (rule compose_ignores)
next
  fix x
  show "Q x c" by (rule assms(3))
qed

text \<open>The cells that make a bond graph of a sub-network call a module's \<^verbatim>\<open>model()\<close>; that
  changes nothing but the models the monitor remembers.\<close>

lemma compose_ME_In5:
  "unified c = [] \<Longrightarrow> (\<And>x c'. unified c' = [] \<Longrightarrow> Q x c') \<Longrightarrow>
   guards compose_step c (ME_In5 E s0) Q"
  unfolding ME_In5_def sanity_check_def
  by (auto intro!: guards_intros simp: module_models_def)

lemma compose_ME_In13:
  "unified c = [] \<Longrightarrow> (\<And>x c'. unified c' = [] \<Longrightarrow> Q x c') \<Longrightarrow>
   guards compose_step c (ME_In13 E s0) Q"
  unfolding ME_In13_def sanity_check_def
  by (auto intro!: guards_intros simp: module_models_def)

lemma compose_ME_In18:
  "unified c = [] \<Longrightarrow> (\<And>x c'. unified c' = [] \<Longrightarrow> Q x c') \<Longrightarrow>
   guards compose_step c (ME_In18 E s0) Q"
  unfolding ME_In18_def sanity_check_def
  by (auto intro!: guards_intros simp: module_models_def)

lemma compose_ME_In22:
  "unified c = [] \<Longrightarrow> (\<And>x c'. unified c' = [] \<Longrightarrow> Q x c') \<Longrightarrow>
   guards compose_step c (ME_In22 E s0) Q"
  unfolding ME_In22_def sanity_check_def
  by (auto intro!: guards_intros simp: module_models_def)

lemma compose_ME_In25:
  "unified c = [] \<Longrightarrow> (\<And>g c'. filled c' = Some g \<Longrightarrow> unified c' = [] \<Longrightarrow> Q g c') \<Longrightarrow>
   guards compose_step c (ME_In25 E) Q"
  unfolding ME_In25_def
  by (auto intro!: guards_intros simp: module_models_def)

lemma compose_ME_In26:
  "filled c = Some g \<Longrightarrow> unified c = [] \<Longrightarrow>
   (\<And>c'. unified c' = [strs common_GlyTCA] \<Longrightarrow> Q () c') \<Longrightarrow>
   guards compose_step c (ME_In26 E g) Q"
  unfolding ME_In26_def Let_def
  by (auto intro!: guards_intros simp: module_models_def common_GlyTCA_def)

lemma compose_ME_In33:
  "unified c = [strs common_GlyTCA] \<Longrightarrow>
   (\<And>g c'. filled c' = Some g \<Longrightarrow> unified c' = [strs common_GlyTCA] \<Longrightarrow> Q g c') \<Longrightarrow>
   guards compose_step c (ME_In33 E) Q"
  unfolding ME_In33_def
  by (auto intro!: guards_intros simp: module_models_def)

lemma compose_ME_In34:
  "filled c = Some g \<Longrightarrow> unified c = [strs common_GlyTCA] \<Longrightarrow>
   (\<And>c'. unified c' = [strs common_GlyTCA, strs common_Met] \<Longrightarrow> Q () c') \<Longrightarrow>
   guards compose_step c (ME_In34 E g) Q"
  unfolding ME_In34_def Let_def
  by (auto intro!: guards_intros simp: module_models_def common_Met_def)

lemma compose_ModularEcoli:
  "unified c = [] \<Longrightarrow>
   guards compose_step c (ModularEcoli E)
     (\<lambda>x c'. unified c' = [strs common_GlyTCA, strs common_Met])"
  unfolding ModularEcoli_def
  apply (rule guards_bindM, rule compose_irrelevant [OF called_ME_In1], simp add: module_models_def)
  apply (rule guards_bindM, rule compose_irrelevant [OF called_ME_In3], simp add: module_models_def)
  apply (rule guards_bindM, rule compose_irrelevant [OF called_ME_In4], simp add: module_models_def)
  apply (rule guards_bindM, rule compose_ME_In5, assumption)
  apply (rule guards_bindM, rule compose_irrelevant [OF called_ME_In6], simp add: module_models_def)
  apply (rule guards_bindM, rule compose_irrelevant [OF called_ME_In7], simp add: module_models_def)
  apply (rule guards_case_prod)
  apply (rule guards_bindM, rule compose_irrelevant [OF called_ME_In8], simp add: module_models_def)
  apply (rule guards_bindM, rule compose_irrelevant [OF called_ME_In9], simp add: module_models_def)
  apply (rule guards_case_prod)
  apply (rule guards_bindM, rule compose_irrelevant [OF called_ME_In10], simp add: module_models_def)
  apply (rule guards_bindM, rule compose_irrelevant [OF called_ME_In11], simp add: module_models_def)
  apply (rule guards_bindM, rule compose_irrelevant [OF called_ME_In12], simp add: module_models_def)
  apply (rule guards_bindM, rule compose_ME_In13, assumption)
  apply (rule guards_bindM, rule compose_irrelevant [OF called_ME_In15], simp add: module_models_def)
  apply (rule guards_bindM, rule compose_irrelevant [OF called_ME_In16], simp add: module_models_def)
  apply (rule guards_bindM, rule compose_irrelevant [OF called_ME_In17], simp add: module_models_def)
  apply (rule guards_bindM, rule compose_ME_In18, assumption)
  apply (rule guards_bindM, rule compose_irrelevant [OF called_ME_In19], simp add: module_models_def)
  apply (rule guards_bindM, rule compose_irrelevant [OF called_ME_In20], simp add: module_models_def)
  apply (rule guards_bindM, rule compose_irrelevant [OF called_ME_In21], simp add: module_models_def)
  apply (rule guards_bindM, rule compose_ME_In22, assumption)
  apply (rule guards_bindM, rule compose_irrelevant [OF called_ME_In23], simp add: module_models_def)
  apply (rule guards_bindM, rule compose_irrelevant [OF called_ME_In24], simp add: module_models_def)
  apply (rule guards_bindM, rule compose_ME_In25, assumption)
  apply (rule guards_bindM, rule compose_ME_In26, assumption, assumption)
  apply (rule guards_bindM, rule compose_irrelevant [OF called_ME_In27], simp add: module_models_def)
  apply (rule guards_bindM, rule compose_irrelevant [OF called_ME_In28], simp add: module_models_def)
  apply (rule guards_bindM, rule compose_irrelevant [OF called_ME_In31], simp add: module_models_def)
  apply (rule guards_bindM, rule compose_irrelevant [OF called_ME_In32], simp add: module_models_def)
  apply (rule guards_bindM, rule compose_ME_In33, assumption)
  apply (rule guards_bindM, rule compose_ME_In34, assumption, assumption)
  apply (rule guards_bindM, rule compose_irrelevant [OF called_ME_In35], simp add: module_models_def)
  apply (rule guards_bindM, rule compose_irrelevant [OF called_ME_In36], simp add: module_models_def)
  apply (rule compose_irrelevant [OF called_ME_In37], simp add: module_models_def)
  apply assumption
  done


lemma unify_commons_simps [simp]:
  "unify_commons [] = []"
  "unify_commons (ev # es) = (case common_of ev of None \<Rightarrow> [] | Some l \<Rightarrow> [l]) @ unify_commons es"
  by (simp_all add: unify_commons_def List.map_filter_def split: option.split)

lemma compose_step_unified:
  "compose_step c ev = Some c' \<Longrightarrow>
   unified c' = unified c @ (case common_of ev of None \<Rightarrow> [] | Some l \<Rightarrow> [l])"
  by (cases ev) (auto simp: module_models_def split: if_splits sum.splits list.splits option.splits)

lemma runmon_compose_unified:
  "runmon compose_step c es = Some c' \<Longrightarrow> unified c' = unified c @ unify_commons es"
proof (induction es arbitrary: c)
  case Nil
  then show ?case by simp
next
  case (Cons ev es)
  then obtain c1 where c1: "compose_step c ev = Some c1" and rest: "runmon compose_step c1 es = Some c'"
    by (auto split: option.splits)
  from Cons.IH [OF rest] compose_step_unified [OF c1] show ?case by simp
qed

lemma compose_step_listed:
  "compose_step c ev = Some c' \<Longrightarrow>
   unified c \<in> set [[], [strs common_GlyTCA], [strs common_GlyTCA, strs common_Met]] \<Longrightarrow>
   unified c' \<in> set [[], [strs common_GlyTCA], [strs common_GlyTCA, strs common_Met]]"
  by (cases ev) (auto simp: module_models_def split: if_splits sum.splits list.splits option.splits)

lemma runmon_compose_listed:
  "runmon compose_step c es = Some c' \<Longrightarrow>
   unified c \<in> set [[], [strs common_GlyTCA], [strs common_GlyTCA, strs common_Met]] \<Longrightarrow>
   unified c' \<in> set [[], [strs common_GlyTCA], [strs common_GlyTCA, strs common_Met]]"
proof (induction es arbitrary: c)
  case Nil
  then show ?case by simp
next
  case (Cons ev es)
  then obtain c1 where c1: "compose_step c ev = Some c1" and rest: "runmon compose_step c1 es = Some c'"
    by (auto split: option.splits)
  from compose_step_listed [OF c1 Cons.prems(2)] Cons.IH [OF rest] show ?case by blast
qed

lemma no_unify_by_called:
  "always (called ns) m \<Longrightarrow> ''mbg.unify'' \<notin> set ns \<Longrightarrow> always (\<lambda>ev. common_of ev = None) m"
proof (erule always_weaken)
  fix ev
  assume "''mbg.unify'' \<notin> set ns" "called ns ev"
  then show "common_of ev = None" by (cases ev) auto
qed

lemma no_unify_EcoliPPP: "always (\<lambda>ev. common_of ev = None) (EcoliPPP E)"
  unfolding EcoliPPP_def
  by (intro always_bindM always_case_prod)
     (rule no_unify_by_called, rule called_PPP_In1 called_PPP_In2 called_PPP_In3 called_PPP_In4
        called_PPP_In5 called_PPP_In8 called_PPP_In9 called_PPP_In10, simp)+

lemma unify_commons_none: "list_all (\<lambda>ev. common_of ev = None) es \<Longrightarrow> unify_commons es = []"
  by (induction es) simp_all

text \<open>The monitor refuses a unification with another list.\<close>

lemma compose_refuses_other_list:
  "\<not> accepts compose_step (composing0\<lparr>filled := Some (VRef 1)\<rparr>)
       [Call ''mbg.unify'' [VRef 1] [(''common'', VList [VStr ''ATP''])] (Inr VNone)]"
  by (simp add: accepts_def composing0_def strs_def common_GlyTCA_def common_Met_def module_models_def)

text \<open>
  C6. Sub-networks are recombined by unifying exactly the listed species. Every run of
  the modular notebook is accepted by the composition monitor: Glycolysis and TCA are
  added to a system just made and that system is unified with the Glycolysis/TCA list;
  the composite, the electron transport chain and ATPase are added to a second system
  just made and that system is unified with the metabolism list. The \<open>common\<close> lists of
  the \<open>mbg.unify\<close> calls of a run are these two, in this order, when the run reaches
  its end, and a beginning of them otherwise; the pentose-phosphate notebook unifies
  nothing.
\<close>

theorem unify_exactly_listed:
  "accepts compose_step composing0 (trace (ModularEcoli E h))
   \<and> unify_commons (trace (ModularEcoli E h))
        \<in> set [[], [strs common_GlyTCA], [strs common_GlyTCA, strs common_Met]]
   \<and> (result (ModularEcoli E h) = Inr () \<longrightarrow>
        unify_commons (trace (ModularEcoli E h)) = [strs common_GlyTCA, strs common_Met])
   \<and> unify_commons (trace (EcoliPPP E h)) = []"
proof -
  have start: "unified composing0 = []" by (simp add: composing0_def)
  obtain r h1 es where run: "ModularEcoli E h = (r, h1, es)" by (cases "ModularEcoli E h")
  from guards_run [OF compose_ModularEcoli [OF start] run]
  obtain c where c: "runmon compose_step composing0 es = Some c"
    and fin: "\<forall>x. r = Inr x \<longrightarrow> unified c = [strs common_GlyTCA, strs common_Met]"
    by blast
  have u: "unified c = unify_commons es"
    using runmon_compose_unified [OF c] start by simp
  have listed: "unified c \<in> set [[], [strs common_GlyTCA], [strs common_GlyTCA, strs common_Met]]"
    using runmon_compose_listed [OF c] start by simp
  have ppp: "unify_commons (trace (EcoliPPP E h)) = []"
    using alwaysD [OF no_unify_EcoliPPP, of E h] by (rule unify_commons_none)
  show ?thesis
    using c fin u listed ppp run by (simp add: accepts_def)
qed

theorem unify_exactly_listed_witness:
  "result (ModularEcoli stocked_library [[]]) = Inr ()
   \<and> unify_commons (trace (ModularEcoli stocked_library [[]]))
       = [strs common_GlyTCA, strs common_Met]"
  using unify_exactly_listed [of stocked_library "[[]]"] stocked_run by simp

end
